theory Spec2Isabelle
  imports Main
begin

section \<open>The guided-remediation script \<^verbatim>\<open>scripts/examples/auto_guided_remediation.py\<close>\<close>

text \<open>
  The script drives three external programs: \<^verbatim>\<open>git checkout\<close> (workspace reset),
  \<^verbatim>\<open>osv-scanner fix\<close> (patch acquisition) and \<^verbatim>\<open>npm ci\<close> / \<^verbatim>\<open>npm run test\<close>
  (validation). Their behaviour is not part of the script, so the model takes them as
  functions over an explicit world state \<open>'w\<close> (everything outside the script: the
  files on disk, the network, the clock). A behaviour that depends on the history of
  the run is one that reads and updates \<open>'w\<close>; a deterministic one ignores it.

  Strings are \<open>char list\<close>, a character standing for the code point of its number: the
  model covers text made of code points below 256.
  Python integers are unbounded; every count of the script is a parsed run of digits
  or a counter started at 0 and incremented, so \<open>nat\<close> holds them.
  Progress messages printed inside \<^verbatim>\<open>run_loop\<close> are left out; the final report is
  modelled as the list of its lines.

  The exceptions of the model are those that depend on what the commands exit with and
  write: \<^verbatim>\<open>CalledProcessError\<close>, raised by \<^verbatim>\<open>check_call\<close> and \<^verbatim>\<open>check_output\<close> on a
  non-zero exit status; \<^verbatim>\<open>UnicodeDecodeError\<close>, raised by \<^verbatim>\<open>check_output\<close> when the
  captured bytes are not text; and \<^verbatim>\<open>ValueError\<close>, raised by \<^verbatim>\<open>int\<close> on more digits than
  the interpreter converts. The commands are taken to start. The guards of lines 19 to
  28 (usage, not a git repository) run before anything modelled here and are left out.
\<close>

subsection \<open>The pieces of the Python library the script calls\<close>

text \<open>
  What a finished command leaves for \<^verbatim>\<open>subprocess.check_output(cmd, text=True)\<close>: its
  exit status, and what it wrote to standard output as the library decodes it (line
  ends translated to line feeds), or \<open>None\<close> when the bytes it wrote do not decode in
  the locale's encoding. Standard error is not captured by this call.
\<close>

record process_result =
  returncode :: int
  stdout :: "string option"

text \<open>
  The exceptions that leave \<^verbatim>\<open>run_fix\<close>: \<^verbatim>\<open>CalledProcessError\<close> of \<^verbatim>\<open>subprocess.check_call\<close>
  (with the exit status), \<^verbatim>\<open>UnicodeDecodeError\<close> and \<^verbatim>\<open>ValueError\<close>.
\<close>

datatype error = CheckCallFailed int | UnicodeDecodeError | ValueError

text \<open>
  What \<^verbatim>\<open>subprocess.check_output(cmd, text=True)\<close> does with it. The output is decoded
  while it is read, before the exit status is looked at, so output that does not decode
  raises \<^verbatim>\<open>UnicodeDecodeError\<close> whatever the status is. Otherwise the call returns the
  text on status 0 and raises \<^verbatim>\<open>CalledProcessError\<close> on any other status, with its
  attribute \<^verbatim>\<open>stdout\<close> holding the text and its attribute \<^verbatim>\<open>stderr\<close> being \<^verbatim>\<open>None\<close>.
\<close>

datatype check_output_result =
    Output string
  | CalledProcessError "string option" "string option"
  | Raises error

definition check_output :: "process_result \<Rightarrow> check_output_result" where
  "check_output p =
     (case stdout p of
        None \<Rightarrow> Raises UnicodeDecodeError
      | Some out \<Rightarrow>
          if returncode p = 0 then Output out else CalledProcessError (Some out) None)"

text \<open>
  The environment of the script. \<open>int_max_str_digits\<close> is the interpreter's limit on the
  digits \<^verbatim>\<open>int\<close> converts (\<^verbatim>\<open>sys.get_int_max_str_digits()\<close>: 4300 unless configured
  otherwise, 0 for no limit).
\<close>

record 'w env =
  directory :: string
  osv_fix_args :: "string list"
  int_max_str_digits :: nat
  git_checkout :: "'w \<Rightarrow> int \<times> 'w"
  osv_scanner :: "string list \<Rightarrow> 'w \<Rightarrow> process_result \<times> 'w"
  npm_ci :: "'w \<Rightarrow> int \<times> 'w"
  npm_run_test :: "'w \<Rightarrow> int \<times> 'w"

text \<open>\<^verbatim>\<open>x or ''\<close> for an optional string: \<^verbatim>\<open>None\<close> and the empty string both give the empty string.\<close>

fun or_empty :: "string option \<Rightarrow> string" where
  "or_empty None = []"
| "or_empty (Some s) = s"

text \<open>\<^verbatim>\<open>os.path.join(a, b)\<close> on a POSIX system, for two components.\<close>

definition os_path_join :: "string \<Rightarrow> string \<Rightarrow> string" where
  "os_path_join a b =
     (if b \<noteq> [] \<and> hd b = CHR ''/'' then b
      else if a = [] \<or> last a = CHR ''/'' then a @ b
      else a @ ''/'' @ b)"

text \<open>\<^verbatim>\<open>str(n)\<close> for a non-negative integer.\<close>

definition digit_char :: "nat \<Rightarrow> char" where
  "digit_char d = char_of (48 + d)"

fun str_nat :: "nat \<Rightarrow> string" where
  "str_nat n = (if n < 10 then [digit_char n] else str_nat (n div 10) @ [digit_char (n mod 10)])"

text \<open>
  The character classes of \<^verbatim>\<open>re\<close> on code points below 256: \<^verbatim>\<open>\d\<close> is a decimal digit,
  \<^verbatim>\<open>\s\<close> is what \<^verbatim>\<open>str.isspace\<close> accepts (with the next-line and the no-break space
  characters), and \<^verbatim>\<open>.\<close> is anything but a line feed.
\<close>

definition is_digit :: "char \<Rightarrow> bool" where
  "is_digit c \<longleftrightarrow> c \<in> set ''0123456789''"

definition is_space :: "char \<Rightarrow> bool" where
  "is_space c \<longleftrightarrow>
     c \<in> set [CHR '' '', CHR 0x09, CHR 0x0A, CHR 0x0B, CHR 0x0C, CHR 0x0D,
              CHR 0x1C, CHR 0x1D, CHR 0x1E, CHR 0x1F, CHR 0x85, CHR 0xA0]"

definition not_newline :: "char \<Rightarrow> bool" where
  "not_newline c \<longleftrightarrow> c \<noteq> CHR 0x0A"

text \<open>
  \<^verbatim>\<open>int(s)\<close> for a non-empty run of decimal digits: the number they denote, or
  \<^verbatim>\<open>ValueError\<close> when there are more digits (leading zeros counted) than the limit of
  the interpreter, unless the limit is 0.
\<close>

definition int_of_digits :: "string \<Rightarrow> nat" where
  "int_of_digits ds = foldl (\<lambda>a c. 10 * a + (of_char c - 48)) 0 ds"

definition int_str :: "nat \<Rightarrow> string \<Rightarrow> error + nat" where
  "int_str max_str_digits ds =
     (if max_str_digits \<noteq> 0 \<and> max_str_digits < length ds then Inl ValueError
      else Inr (int_of_digits ds))"

text \<open>\<^verbatim>\<open>s.startswith(p)\<close>.\<close>

definition startswith :: "string \<Rightarrow> string \<Rightarrow> bool" where
  "startswith s p \<longleftrightarrow> take (length p) s = p"

subsection \<open>The three regular expressions of \<^verbatim>\<open>run_fix\<close>\<close>

text \<open>
  \<^verbatim>\<open>re.search(key + r'\s*(\d+)', output)\<close> for a literal \<open>key\<close>, and \<^verbatim>\<open>match.group(1)\<close> of
  its match: the leftmost position where the key stands, followed by any white space
  and at least one digit. The classes \<^verbatim>\<open>\s\<close> and \<^verbatim>\<open>\d\<close> are disjoint, so the greedy
  \<^verbatim>\<open>\s*\<close> never gives a character back and the group is the longest run of digits
  after the white space. \<open>None\<close> is "no match".
\<close>

fun search_group :: "string \<Rightarrow> string \<Rightarrow> string option" where
  "search_group key [] = None"
| "search_group key (c # cs) =
     (if startswith (c # cs) key then
        (let ds = takeWhile is_digit (dropWhile is_space (drop (length key) (c # cs)))
         in if ds \<noteq> [] then Some ds else search_group key cs)
      else search_group key cs)"

text \<open>
  Lines 72 to 74 and 76 to 78: the count stays \<^verbatim>\<open>None\<close> without a match, and is the
  integer of the group otherwise.
\<close>

definition search_count :: "nat \<Rightarrow> string \<Rightarrow> string \<Rightarrow> error + nat option" where
  "search_count max_str_digits key output =
     (case search_group key output of
        None \<Rightarrow> Inr None
      | Some ds \<Rightarrow>
          (case int_str max_str_digits ds of
             Inl e \<Rightarrow> Inl e
           | Inr v \<Rightarrow> Inr (Some v)))"

text \<open>
  \<^verbatim>\<open>[match[1] for match in re.finditer(r'UPGRADED-PACKAGE: (.*),(.*),(.*)', output)]\<close>.
  At a position where the literal stands, the three groups have to share the rest of
  the line, so there is a match exactly when that rest holds two commas; the first
  group is greedy and ends at the last comma but one (\<open>group1\<close>). The match runs to the
  end of the line and the scan goes on from there; without a match it goes on one
  character further.
\<close>

definition upgraded_literal :: string where
  "upgraded_literal = ''UPGRADED-PACKAGE: ''"

definition group1 :: "string \<Rightarrow> string" where
  "group1 line =
     rev (tl (dropWhile (\<lambda>c. c \<noteq> CHR '','') (tl (dropWhile (\<lambda>c. c \<noteq> CHR '','') (rev line)))))"

function finditer_upgraded :: "string \<Rightarrow> string list" where
  "finditer_upgraded [] = []"
| "finditer_upgraded (c # cs) =
     (if startswith (c # cs) upgraded_literal then
        (let rest = drop (length upgraded_literal) (c # cs);
             line = takeWhile not_newline rest
         in if 2 \<le> length (filter (\<lambda>c. c = CHR '','') line)
            then group1 line # finditer_upgraded (dropWhile not_newline rest)
            else finditer_upgraded cs)
      else finditer_upgraded cs)"
  by pat_completeness auto
termination
proof (relation "measure length")
  show "wf (measure length)" by simp
next
  fix c :: char and cs x xa
  assume "x = drop (length upgraded_literal) (c # cs)"
  then have "length (dropWhile not_newline x) \<le> length cs"
    using length_dropWhile_le [of not_newline x] by (simp add: upgraded_literal_def)
  then show "(dropWhile not_newline x, c # cs) \<in> measure length" by simp
qed simp_all

subsection \<open>\<^verbatim>\<open>run_fix\<close>\<close>

definition MANIFEST :: "'w env \<Rightarrow> string" where
  "MANIFEST E = os_path_join (directory E) ''package.json''"

definition LOCKFILE :: "'w env \<Rightarrow> string" where
  "LOCKFILE E = os_path_join (directory E) ''package-lock.json''"

text \<open>The command line of the acquisition call (lines 46 to 61 of the script).\<close>

definition fix_cmd :: "'w env \<Rightarrow> nat \<Rightarrow> string list \<Rightarrow> string list \<Rightarrow> string list" where
  "fix_cmd E n_patches blocklist fix_strategy =
     [''osv-scanner'', ''fix'', ''-M'', MANIFEST E, ''-L'', LOCKFILE E]
       @ osv_fix_args E @ fix_strategy
       @ (if n_patches \<noteq> 0 then [''--apply-top'', str_nat n_patches] else [])
       @ concat (map (\<lambda>package_name. [''--upgrade-config'', package_name @ '':none'']) blocklist)"

text \<open>
  The parsing of the captured output (lines 68 to 80): the upgrades, then the remaining
  count, then the unfixable count; a \<^verbatim>\<open>ValueError\<close> of the first conversion leaves before
  the second is tried.
\<close>

definition parse_output ::
  "nat \<Rightarrow> string \<Rightarrow> error + string list \<times> nat option \<times> nat option" where
  "parse_output max_str_digits output =
     (let upgraded = finditer_upgraded output in
      case search_count max_str_digits ''REMAINING-VULNS:'' output of
        Inl e \<Rightarrow> Inl e
      | Inr remaining_vulns \<Rightarrow>
          (case search_count max_str_digits ''UNFIXABLE-VULNS:'' output of
             Inl e \<Rightarrow> Inl e
           | Inr unfixable_vulns \<Rightarrow> Inr (upgraded, remaining_vulns, unfixable_vulns)))"

text \<open>
  \<^verbatim>\<open>run_fix\<close> (lines 34 to 80): the reset by \<^verbatim>\<open>check_call\<close>, the acquisition call in
  \<^verbatim>\<open>try\<close> with its \<^verbatim>\<open>except CalledProcessError\<close>, and the parsing.
\<close>

definition run_fix ::
  "'w env \<Rightarrow> nat \<Rightarrow> string list \<Rightarrow> string list \<Rightarrow> 'w
     \<Rightarrow> (error + string list \<times> nat option \<times> nat option) \<times> 'w" where
  "run_fix E n_patches blocklist fix_strategy w =
     (case git_checkout E w of (rc, w1) \<Rightarrow>
        if rc \<noteq> 0 then (Inl (CheckCallFailed rc), w1)
        else
          (case osv_scanner E (fix_cmd E n_patches blocklist fix_strategy) w1 of (p, w2) \<Rightarrow>
             (case check_output p of
                Raises e \<Rightarrow> (Inl e, w2)
              | Output out \<Rightarrow> (parse_output (int_max_str_digits E) out, w2)
              | CalledProcessError out err \<Rightarrow>
                  (parse_output (int_max_str_digits E) (or_empty out @ or_empty err), w2))))"

subsection \<open>\<^verbatim>\<open>run_loop\<close>\<close>

text \<open>
  The local variables of \<^verbatim>\<open>run_loop\<close> that live across rounds. \<^verbatim>\<open>unfixable_vulns\<close> is
  assigned and read within one round only, so it is not part of the state.
\<close>

record run_state =
  applied_changes :: "string list"
  blocklist_entries :: "string list"
  n_patches :: nat
  remaining_vulns :: "nat option"
  total_unfixable :: "nat option"

definition initial_state :: run_state where
  "initial_state =
     \<lparr>applied_changes = [], blocklist_entries = [], n_patches = 0,
      remaining_vulns = None, total_unfixable = None\<rparr>"

text \<open>How one pass through the body of \<^verbatim>\<open>while True\<close> ends.\<close>

datatype control = Continue run_state | Break run_state | Raise error

text \<open>
  Lines 120 to 122: every candidate that is not in \<^verbatim>\<open>applied_changes\<close> is appended to the
  blocklist, in the order of the candidates.
\<close>

fun blocklist_upgrades :: "string list \<Rightarrow> string list \<Rightarrow> string list \<Rightarrow> string list" where
  "blocklist_upgrades applied blocklist [] = blocklist"
| "blocklist_upgrades applied blocklist (upgrade # rest) =
     (if upgrade \<notin> set applied
      then blocklist_upgrades applied (blocklist @ [upgrade]) rest
      else blocklist_upgrades applied blocklist rest)"

text \<open>
  The body of the loop (lines 98 to 130). Both \<^verbatim>\<open>npm\<close> commands run before either
  status is looked at; a status counts as failure when it is not 0.
\<close>

definition loop_body :: "'w env \<Rightarrow> string list \<Rightarrow> run_state \<Rightarrow> 'w \<Rightarrow> control \<times> 'w" where
  "loop_body E fix_strategy s w =
     (case run_fix E (n_patches s) (blocklist_entries s) fix_strategy w of
        (Inl e, w1) \<Rightarrow> (Raise e, w1)
      | (Inr (candidate_changes, remaining, unfixable_vulns), w1) \<Rightarrow>
          let s1 = s\<lparr>remaining_vulns := remaining\<rparr> in
          if candidate_changes = applied_changes s then (Break s1, w1)
          else
            (case npm_ci E w1 of (install_failed, w2) \<Rightarrow>
             case npm_run_test E w2 of (tests_failed, w3) \<Rightarrow>
               if install_failed \<noteq> 0 \<or> tests_failed \<noteq> 0 then
                 if n_patches s = 0 then
                   (Continue (s1\<lparr>total_unfixable := unfixable_vulns,
                                 n_patches := n_patches s + 1\<rparr>), w3)
                 else
                   (Continue (s1\<lparr>blocklist_entries :=
                       blocklist_upgrades (applied_changes s) (blocklist_entries s)
                         candidate_changes\<rparr>), w3)
               else if n_patches s = 0 then
                 (Break (s1\<lparr>applied_changes := candidate_changes\<rparr>), w3)
               else
                 (Continue (s1\<lparr>applied_changes := candidate_changes,
                               n_patches := n_patches s + 1\<rparr>), w3)))"

text \<open>What \<^verbatim>\<open>run_loop\<close> returns (line 141).\<close>

type_synonym loop_result = "string list \<times> nat option \<times> nat option \<times> string list"

definition returned :: "run_state \<Rightarrow> loop_result" where
  "returned s = (applied_changes s, remaining_vulns s, total_unfixable s, blocklist_entries s)"

text \<open>
  The loop itself may run forever: \<open>None\<close> is "does not return", \<open>Some (Inl e, w)\<close> is
  the exception \<open>e\<close> leaving the function, \<open>Some (Inr r, w)\<close> is the returned tuple.
\<close>

partial_function (option) while_loop ::
  "'w env \<Rightarrow> string list \<Rightarrow> run_state \<Rightarrow> 'w \<Rightarrow> ((error + loop_result) \<times> 'w) option" where
  "while_loop E fix_strategy s w =
     (case loop_body E fix_strategy s w of
        (Raise e, w') \<Rightarrow> Some (Inl e, w')
      | (Break s', w') \<Rightarrow> Some (Inr (returned s'), w')
      | (Continue s', w') \<Rightarrow> while_loop E fix_strategy s' w')"

declare while_loop.simps [code]

definition run_loop ::
  "'w env \<Rightarrow> string list \<Rightarrow> 'w \<Rightarrow> ((error + loop_result) \<times> 'w) option" where
  "run_loop E fix_strategy w = while_loop E fix_strategy initial_state w"

text \<open>
  The state and world at the head of the loop after \<open>k\<close> rounds that all went on to a
  next round; \<open>None\<close> when the loop left earlier.
\<close>

fun after_rounds :: "'w env \<Rightarrow> string list \<Rightarrow> nat \<Rightarrow> run_state \<Rightarrow> 'w \<Rightarrow> (run_state \<times> 'w) option" where
  "after_rounds E fix_strategy 0 s w = Some (s, w)"
| "after_rounds E fix_strategy (Suc k) s w =
     (case loop_body E fix_strategy s w of
        (Continue s', w') \<Rightarrow> after_rounds E fix_strategy k s' w'
      | (Break s', w') \<Rightarrow> None
      | (Raise e, w') \<Rightarrow> None)"

subsection \<open>The strategy selector and the final report (lines 144 to 179)\<close>

definition PATCH_STRATEGIES :: "string list list" where
  "PATCH_STRATEGIES = [[''--strategy=in-place''], [''--strategy=relock'']]"

record best =
  best_strategy :: "string list option"
  best_changes :: "string list"
  best_blocklist :: "string list"
  best_remaining :: nat
  best_unfixable :: "nat option"

text \<open>
  \<^verbatim>\<open>sys.maxsize\<close> belongs to the interpreter, not to the script: it is a parameter here
  (\<open>2^63 - 1\<close> on a 64-bit build, \<open>2^31 - 1\<close> on a 32-bit one).
\<close>

definition initial_best :: "nat \<Rightarrow> best" where
  "initial_best maxsize =
     \<lparr>best_strategy = None, best_changes = [], best_blocklist = [],
      best_remaining = maxsize, best_unfixable = None\<rparr>"

text \<open>Lines 154 to 163, for the tuple a run of \<^verbatim>\<open>run_loop\<close> returned.\<close>

fun update_best :: "best \<Rightarrow> string list \<Rightarrow> loop_result \<Rightarrow> best" where
  "update_best b strategy_args
       (strategy_changes, strategy_remaining, strategy_unfixable, strategy_blocklist) =
     (if strategy_changes \<noteq> []
         \<and> strategy_remaining \<noteq> None
         \<and> the strategy_remaining < best_remaining b
      then \<lparr>best_strategy = Some strategy_args, best_changes = strategy_changes,
            best_blocklist = strategy_blocklist,
            best_remaining = the strategy_remaining,
            best_unfixable = strategy_unfixable\<rparr>
      else b)"

text \<open>The \<^verbatim>\<open>for\<close> loop over the strategies; an exception or a run that never returns ends it.\<close>

fun run_strategies ::
  "'w env \<Rightarrow> string list list \<Rightarrow> best \<Rightarrow> 'w \<Rightarrow> ((error + best) \<times> 'w) option" where
  "run_strategies E [] b w = Some (Inr b, w)"
| "run_strategies E (strategy_args # rest) b w =
     (case run_loop E strategy_args w of
        None \<Rightarrow> None
      | Some (Inl e, w') \<Rightarrow> Some (Inl e, w')
      | Some (Inr r, w') \<Rightarrow> run_strategies E rest (update_best b strategy_args r) w')"

text \<open>
  The lines of the final report, one constructor for each \<^verbatim>\<open>print\<close> statement of lines
  165 to 179, holding the values the statement interpolates.
\<close>

datatype report_line =
    Blank
  | Completed_header
  | Best_strategy "string list option"
  | Package string
  | Cannot_upgrade_header
  | Vulnerabilities_remain nat
  | Impossible_to_fix nat

text \<open>
  \<^verbatim>\<open>if best_unfixable:\<close> tests the truth value of an optional integer: \<^verbatim>\<open>None\<close> and \<open>0\<close>
  are both false.
\<close>

definition final_report :: "best \<Rightarrow> report_line list" where
  "final_report b =
     [Blank, Completed_header, Best_strategy (best_strategy b)]
       @ map Package (best_changes b)
       @ [Cannot_upgrade_header]
       @ map Package (best_blocklist b)
       @ [Blank, Vulnerabilities_remain (best_remaining b)]
       @ (case best_unfixable b of
            None \<Rightarrow> []
          | Some u \<Rightarrow> if u \<noteq> 0 then [Impossible_to_fix u] else [])"

definition script :: "'w env \<Rightarrow> nat \<Rightarrow> 'w \<Rightarrow> ((error + report_line list) \<times> 'w) option" where
  "script E maxsize w =
     (case run_strategies E PATCH_STRATEGIES (initial_best maxsize) w of
        None \<Rightarrow> None
      | Some (Inl e, w') \<Rightarrow> Some (Inl e, w')
      | Some (Inr b, w') \<Rightarrow> Some (Inr (final_report b), w'))"

section \<open>Notions used in the statements\<close>

text \<open>
  The outcome of lines 109 to 112 in a world \<open>w\<close>: \<^verbatim>\<open>install_failed or tests_failed\<close>, and the
  world after both commands have run.
\<close>

definition validation_failed :: "'w env \<Rightarrow> 'w \<Rightarrow> bool" where
  "validation_failed E w \<longleftrightarrow>
     fst (npm_ci E w) \<noteq> 0 \<or> fst (npm_run_test E (snd (npm_ci E w))) \<noteq> 0"

definition after_validation :: "'w env \<Rightarrow> 'w \<Rightarrow> 'w" where
  "after_validation E w = snd (npm_run_test E (snd (npm_ci E w)))"

text \<open>
  In the round that starts in state \<open>s\<close> and world \<open>w\<close>, acquisition returned the candidates
  \<open>c\<close>, they differ from \<^verbatim>\<open>applied_changes\<close> (so lines 109 and 110 ran), and both the
  install and the test command exited with status 0.
\<close>

definition validated :: "'w env \<Rightarrow> string list \<Rightarrow> run_state \<Rightarrow> 'w \<Rightarrow> string list \<Rightarrow> bool" where
  "validated E st s w c =
     (case run_fix E (n_patches s) (blocklist_entries s) st w of
        (Inl e, w1) \<Rightarrow> False
      | (Inr (c', r, u), w1) \<Rightarrow> c' = c \<and> c \<noteq> applied_changes s \<and> \<not> validation_failed E w1)"

text \<open>
  The result \<open>y\<close> comes out of a last round, reached after some number of rounds that
  went on: either the round left the loop by \<^verbatim>\<open>break\<close> in state \<open>s'\<close> and \<open>y\<close> is the
  returned tuple of \<open>s'\<close>, or it raised and \<open>y\<close> is the exception.
\<close>

definition exits_after :: "'w env \<Rightarrow> string list \<Rightarrow> run_state \<Rightarrow> 'w \<Rightarrow> (error + loop_result) \<times> 'w \<Rightarrow> bool" where
  "exits_after E st s w y \<longleftrightarrow>
     (\<exists>k s0 w0. after_rounds E st k s w = Some (s0, w0)
        \<and> ((\<exists>s'. loop_body E st s0 w0 = (Break s', snd y) \<and> fst y = Inr (returned s'))
           \<or> (\<exists>e. loop_body E st s0 w0 = (Raise e, snd y) \<and> fst y = Inl e)))"




text \<open>
  \<^verbatim>\<open>key in output\<close>: the key stands somewhere in the output.
\<close>

fun occurs_in :: "string \<Rightarrow> string \<Rightarrow> bool" where
  "occurs_in key [] \<longleftrightarrow> key = []"
| "occurs_in key (c # cs) \<longleftrightarrow> startswith (c # cs) key \<or> occurs_in key cs"

section \<open>Concrete environments\<close>

text \<open>
  The environments below are the concrete inputs at which the statements are evaluated.
\<close>

definition newline :: string where
  "newline = [CHR 0x0A]"

definition marker_output :: string where
  "marker_output = ''UPGRADED-PACKAGE: pkgA,1.0.0,1.0.1'' @ newline @ ''REMAINING-VULNS: 3''"

text \<open>
  An acquisition whose every call exits with status 1, after having printed one upgrade
  marker and a count; reset and validation succeed.
\<close>

definition failing_acquisition :: "unit env" where
  "failing_acquisition =
     \<lparr>directory = ''project'', osv_fix_args = [], int_max_str_digits = 4300,
      git_checkout = (\<lambda>w. (0, w)),
      osv_scanner = (\<lambda>cmd w. (\<lparr>returncode = 1, stdout = Some marker_output\<rparr>, w)),
      npm_ci = (\<lambda>w. (0, w)),
      npm_run_test = (\<lambda>w. (0, w))\<rparr>"

text \<open>
  Scenario A of the specification: the unconstrained attempt returns one upgrade,
  2 remaining and 3 unfixable vulnerabilities, and validation passes.
\<close>

definition scenario_A :: "unit env" where
  "scenario_A =
     \<lparr>directory = ''project'', osv_fix_args = [], int_max_str_digits = 4300,
      git_checkout = (\<lambda>w. (0, w)),
      osv_scanner = (\<lambda>cmd w.
         (\<lparr>returncode = 0,
           stdout = Some (''UPGRADED-PACKAGE: pkgA,1.0.0,1.0.1'' @ newline
             @ ''REMAINING-VULNS: 2'' @ newline @ ''UNFIXABLE-VULNS: 3'')\<rparr>, w)),
      npm_ci = (\<lambda>w. (0, w)),
      npm_run_test = (\<lambda>w. (0, w))\<rparr>"

text \<open>
  A run in four acquisition calls (the world counts them): the unconstrained attempt
  proposes \<^verbatim>\<open>pkgA\<close> and \<^verbatim>\<open>pkgB\<close> and fails validation; the attempt with budget 1 proposes
  \<^verbatim>\<open>pkgA\<close> and passes; the attempt with budget 2 proposes both and fails; the last call
  proposes \<^verbatim>\<open>pkgA\<close> again and reports no count.
\<close>

definition scenario_outputs :: "nat \<Rightarrow> string" where
  "scenario_outputs k =
     (if k = 0 then
        ''UPGRADED-PACKAGE: pkgA,1.0.0,1.0.1'' @ newline
        @ ''UPGRADED-PACKAGE: pkgB,2.0.0,3.0.0'' @ newline
        @ ''REMAINING-VULNS: 5'' @ newline @ ''UNFIXABLE-VULNS: 1''
      else if k = 1 then
        ''UPGRADED-PACKAGE: pkgA,1.0.0,1.0.1'' @ newline @ ''REMAINING-VULNS: 4''
      else if k = 2 then
        ''UPGRADED-PACKAGE: pkgA,1.0.0,1.0.1'' @ newline
        @ ''UPGRADED-PACKAGE: pkgB,2.0.0,3.0.0'' @ newline
        @ ''REMAINING-VULNS: 3'' @ newline @ ''UNFIXABLE-VULNS: 7''
      else ''UPGRADED-PACKAGE: pkgA,1.0.0,1.0.1'')"

definition scenario :: "nat env" where
  "scenario =
     \<lparr>directory = ''project'', osv_fix_args = [], int_max_str_digits = 4300,
      git_checkout = (\<lambda>w. (0, w)),
      osv_scanner = (\<lambda>cmd w.
         (\<lparr>returncode = 0, stdout = Some (scenario_outputs w)\<rparr>, Suc w)),
      npm_ci = (\<lambda>w. (0, w)),
      npm_run_test = (\<lambda>w. (if w = 2 then 0 else 1, w))\<rparr>"




text \<open>
  An acquisition that reports as many remaining vulnerabilities as \<^verbatim>\<open>sys.maxsize\<close> of a
  64-bit interpreter, with one upgrade that passes validation.
\<close>

definition huge_output :: string where
  "huge_output =
     ''UPGRADED-PACKAGE: pkgA,1.0.0,1.0.1'' @ newline @ ''REMAINING-VULNS: 9223372036854775807''"

definition huge_remaining :: "unit env" where
  "huge_remaining =
     \<lparr>directory = ''project'', osv_fix_args = [], int_max_str_digits = 4300,
      git_checkout = (\<lambda>w. (0, w)),
      osv_scanner = (\<lambda>cmd w. (\<lparr>returncode = 0, stdout = Some huge_output\<rparr>, w)),
      npm_ci = (\<lambda>w. (0, w)),
      npm_run_test = (\<lambda>w. (0, w))\<rparr>"

text \<open>
  Three strategies whose unconstrained attempts pass validation and leave 5, 3 and 3
  vulnerabilities: the acquisition reads the strategy off its command line.
\<close>

definition three_strategies :: "string list list" where
  "three_strategies = PATCH_STRATEGIES @ [[''--min-severity=7'']]"

definition strategy_output :: "string list \<Rightarrow> string" where
  "strategy_output cmd =
     (if ''--strategy=in-place'' \<in> set cmd then
        ''UPGRADED-PACKAGE: pkgA,1.0.0,1.0.1'' @ newline @ ''REMAINING-VULNS: 5''
      else if ''--strategy=relock'' \<in> set cmd then
        ''UPGRADED-PACKAGE: pkgB,2.0.0,3.0.0'' @ newline @ ''REMAINING-VULNS: 3''
      else
        ''UPGRADED-PACKAGE: pkgC,0.1.0,0.2.0'' @ newline @ ''REMAINING-VULNS: 3'')"

definition by_strategy :: "unit env" where
  "by_strategy =
     \<lparr>directory = ''project'', osv_fix_args = [], int_max_str_digits = 4300,
      git_checkout = (\<lambda>w. (0, w)),
      osv_scanner = (\<lambda>cmd w. (\<lparr>returncode = 0, stdout = Some (strategy_output cmd)\<rparr>, w)),
      npm_ci = (\<lambda>w. (0, w)),
      npm_run_test = (\<lambda>w. (0, w))\<rparr>"

section \<open>\<^verbatim>\<open>run_fix\<close> on a failed acquisition call\<close>



lemma search_group_None: "\<not> occurs_in key out \<Longrightarrow> search_group key out = None"
  by (induction out) auto

lemma finditer_upgraded_Nil:
  "\<not> occurs_in upgraded_literal out \<Longrightarrow> finditer_upgraded out = []"
  by (induction out) auto

lemma parse_output_no_markers:
  assumes "\<not> occurs_in upgraded_literal output"
    and "\<not> occurs_in ''REMAINING-VULNS:'' output"
    and "\<not> occurs_in ''UNFIXABLE-VULNS:'' output"
  shows "parse_output m output = Inr ([], None, None)"
  using assms
  by (simp add: parse_output_def search_count_def search_group_None finditer_upgraded_Nil)

lemma parse_output_error:
  assumes "parse_output m output = Inl e"
  shows "e = ValueError \<and> m \<noteq> 0
         \<and> (\<exists>ds. (search_group ''REMAINING-VULNS:'' output = Some ds
                   \<or> search_group ''UNFIXABLE-VULNS:'' output = Some ds)
                \<and> m < length ds)"
proof -
  have count: "search_count m key output = Inl e'
      \<Longrightarrow> e' = ValueError \<and> m \<noteq> 0 \<and> (\<exists>ds. search_group key output = Some ds \<and> m < length ds)"
    for key e'
    by (auto simp: search_count_def int_str_def split: option.splits if_splits)
  from assms consider "search_count m ''REMAINING-VULNS:'' output = Inl e"
    | "search_count m ''UNFIXABLE-VULNS:'' output = Inl e"
    by (auto simp: parse_output_def Let_def split: sum.splits)
  then show ?thesis
  proof cases
    case 1
    from count [OF this] show ?thesis by blast
  next
    case 2
    from count [OF this] show ?thesis by blast
  qed
qed

text \<open>
  \<^verbatim>\<open>run_fix\<close> after a successful reset, by what the acquisition call leaves: the exit
  status has no part in it.
\<close>

lemma run_fix_after_reset:
  assumes "git_checkout E w = (0, w1)"
    and "osv_scanner E (fix_cmd E n blocklist strategy) w1 = (p, w2)"
  shows "run_fix E n blocklist strategy w =
           (case stdout p of
              None \<Rightarrow> (Inl UnicodeDecodeError, w2)
            | Some out \<Rightarrow> (parse_output (int_max_str_digits E) out, w2))"
  using assms by (simp add: run_fix_def check_output_def split: option.splits)

text \<open>
  C3, as stated, fails: the acquisition call of \<open>failing_acquisition\<close> exits with status
  1, and \<open>run_fix\<close> still returns the upgrade and the count found in its captured output
  instead of \<open>([], None, None)\<close>.
\<close>

theorem run_fix_failed_call_counterexample:
  "osv_scanner failing_acquisition
       (fix_cmd failing_acquisition 0 [] [''--strategy=in-place'']) ()
     = (\<lparr>returncode = 1, stdout = Some marker_output\<rparr>, ())
   \<and> check_output \<lparr>returncode = 1, stdout = Some marker_output\<rparr>
     = CalledProcessError (Some marker_output) None
   \<and> run_fix failing_acquisition 0 [] [''--strategy=in-place''] ()
     = (Inr ([''pkgA''], Some 3, None), ())
   \<and> run_fix failing_acquisition 0 [] [''--strategy=in-place''] ()
     \<noteq> (Inr ([], None, None), ())"
  by (simp add: failing_acquisition_def run_fix_def check_output_def marker_output_def
        newline_def)
     (simp add: parse_output_def search_count_def int_str_def startswith_def
        upgraded_literal_def group1_def not_newline_def is_digit_def is_space_def
        int_of_digits_def)

text \<open>
  C3 (amended): when the workspace reset succeeds and the acquisition call exits
  non-zero, \<open>run_fix\<close> does not treat the failure as fatal: it returns or raises exactly
  what it does for a call that exits with status 0 after the same output. When the
  captured output is text, it returns what the markers in it parse to, which is
  \<open>([], None, None)\<close> when none of the three markers occurs in it, and the only
  exception is the \<^verbatim>\<open>ValueError\<close> of a marked count with more digits than the
  interpreter converts; when the captured output is not text, \<^verbatim>\<open>UnicodeDecodeError\<close> is
  raised.
\<close>

theorem run_fix_failed_call:
  assumes "git_checkout E w = (0, w1)"
    and "osv_scanner E (fix_cmd E n blocklist strategy) w1 = (p, w2)"
    and "returncode p \<noteq> 0"
  shows "run_fix (E\<lparr>osv_scanner := (\<lambda>cmd w. (p\<lparr>returncode := 0\<rparr>, w2))\<rparr>) n blocklist strategy w
           = run_fix E n blocklist strategy w
         \<and> (stdout p = None
              \<longrightarrow> run_fix E n blocklist strategy w = (Inl UnicodeDecodeError, w2))
         \<and> (stdout p = Some out
              \<longrightarrow> run_fix E n blocklist strategy w
                    = (parse_output (int_max_str_digits E) out, w2)
                  \<and> (\<not> occurs_in upgraded_literal out
                       \<and> \<not> occurs_in ''REMAINING-VULNS:'' out
                       \<and> \<not> occurs_in ''UNFIXABLE-VULNS:'' out
                      \<longrightarrow> run_fix E n blocklist strategy w = (Inr ([], None, None), w2))
                  \<and> (fst (run_fix E n blocklist strategy w) = Inl e
                      \<longrightarrow> e = ValueError \<and> int_max_str_digits E \<noteq> 0
                          \<and> (\<exists>ds. (search_group ''REMAINING-VULNS:'' out = Some ds
                                    \<or> search_group ''UNFIXABLE-VULNS:'' out = Some ds)
                                 \<and> int_max_str_digits E < length ds)))"
proof -
  let ?E0 = "E\<lparr>osv_scanner := (\<lambda>cmd w. (p\<lparr>returncode := 0\<rparr>, w2))\<rparr>"
  note failed = run_fix_after_reset [OF assms(1,2)]
  have "git_checkout ?E0 w = (0, w1)" using assms(1) by simp
  moreover have "osv_scanner ?E0 (fix_cmd ?E0 n blocklist strategy) w1 = (p\<lparr>returncode := 0\<rparr>, w2)"
    by simp
  ultimately have "run_fix ?E0 n blocklist strategy w =
           (case stdout (p\<lparr>returncode := 0\<rparr>) of
              None \<Rightarrow> (Inl UnicodeDecodeError, w2)
            | Some out \<Rightarrow> (parse_output (int_max_str_digits ?E0) out, w2))"
    by (rule run_fix_after_reset)
  then have same: "run_fix ?E0 n blocklist strategy w = run_fix E n blocklist strategy w"
    using failed by (simp split: option.splits)
  have not_text: "stdout p = None
      \<longrightarrow> run_fix E n blocklist strategy w = (Inl UnicodeDecodeError, w2)"
    using failed by simp
  have is_text: "stdout p = Some out
      \<longrightarrow> run_fix E n blocklist strategy w = (parse_output (int_max_str_digits E) out, w2)
          \<and> (\<not> occurs_in upgraded_literal out
               \<and> \<not> occurs_in ''REMAINING-VULNS:'' out
               \<and> \<not> occurs_in ''UNFIXABLE-VULNS:'' out
              \<longrightarrow> run_fix E n blocklist strategy w = (Inr ([], None, None), w2))
          \<and> (fst (run_fix E n blocklist strategy w) = Inl e
              \<longrightarrow> e = ValueError \<and> int_max_str_digits E \<noteq> 0
                  \<and> (\<exists>ds. (search_group ''REMAINING-VULNS:'' out = Some ds
                            \<or> search_group ''UNFIXABLE-VULNS:'' out = Some ds)
                         \<and> int_max_str_digits E < length ds))"
  proof
    assume "stdout p = Some out"
    then have rf: "run_fix E n blocklist strategy w
                     = (parse_output (int_max_str_digits E) out, w2)"
      using failed by simp
    have no_markers: "run_fix E n blocklist strategy w = (Inr ([], None, None), w2)"
      if "\<not> occurs_in upgraded_literal out
            \<and> \<not> occurs_in ''REMAINING-VULNS:'' out
            \<and> \<not> occurs_in ''UNFIXABLE-VULNS:'' out"
      using that rf by (simp add: parse_output_no_markers)
    have raised: "e = ValueError \<and> int_max_str_digits E \<noteq> 0
            \<and> (\<exists>ds. (search_group ''REMAINING-VULNS:'' out = Some ds
                      \<or> search_group ''UNFIXABLE-VULNS:'' out = Some ds)
                   \<and> int_max_str_digits E < length ds)"
      if "fst (run_fix E n blocklist strategy w) = Inl e"
    proof -
      from that rf have "parse_output (int_max_str_digits E) out = Inl e" by simp
      from parse_output_error [OF this] show ?thesis .
    qed
    show "run_fix E n blocklist strategy w = (parse_output (int_max_str_digits E) out, w2)
          \<and> (\<not> occurs_in upgraded_literal out
               \<and> \<not> occurs_in ''REMAINING-VULNS:'' out
               \<and> \<not> occurs_in ''UNFIXABLE-VULNS:'' out
              \<longrightarrow> run_fix E n blocklist strategy w = (Inr ([], None, None), w2))
          \<and> (fst (run_fix E n blocklist strategy w) = Inl e
              \<longrightarrow> e = ValueError \<and> int_max_str_digits E \<noteq> 0
                  \<and> (\<exists>ds. (search_group ''REMAINING-VULNS:'' out = Some ds
                            \<or> search_group ''UNFIXABLE-VULNS:'' out = Some ds)
                         \<and> int_max_str_digits E < length ds))"
      by (rule conjI [OF rf conjI [OF impI [OF no_markers] impI [OF raised]]])
  qed
  show ?thesis by (rule conjI [OF same conjI [OF not_text is_text]])
qed

text \<open>
  The amended C3 at \<open>failing_acquisition\<close>, and at three variants of it: one that
  writes a line without markers, one whose output is not text, and one on an
  interpreter that converts three digits at most.
\<close>

theorem run_fix_failed_call_witness:
  "run_fix failing_acquisition 2 [''pkgB''] [''--strategy=relock''] ()
     = (Inr ([''pkgA''], Some 3, None), ())
   \<and> run_fix (failing_acquisition\<lparr>osv_scanner :=
          (\<lambda>cmd w. (\<lparr>returncode = 0, stdout = Some marker_output\<rparr>, ()))\<rparr>)
        2 [''pkgB''] [''--strategy=relock''] ()
     = (Inr ([''pkgA''], Some 3, None), ())
   \<and> run_fix (failing_acquisition\<lparr>osv_scanner :=
          (\<lambda>cmd w. (\<lparr>returncode = 2, stdout = Some ''no lockfile''\<rparr>, w))\<rparr>)
        2 [''pkgB''] [''--strategy=relock''] ()
     = (Inr ([], None, None), ())
   \<and> run_fix (failing_acquisition\<lparr>osv_scanner :=
          (\<lambda>cmd w. (\<lparr>returncode = 2, stdout = None\<rparr>, w))\<rparr>)
        2 [''pkgB''] [''--strategy=relock''] ()
     = (Inl UnicodeDecodeError, ())
   \<and> run_fix (failing_acquisition\<lparr>int_max_str_digits := 3, osv_scanner :=
          (\<lambda>cmd w. (\<lparr>returncode = 2, stdout = Some ''UNFIXABLE-VULNS: 1234''\<rparr>, w))\<rparr>)
        2 [''pkgB''] [''--strategy=relock''] ()
     = (Inl ValueError, ())"
proof -
  let ?st = "[''--strategy=relock'']"
  let ?p1 = "\<lparr>returncode = 1, stdout = Some marker_output\<rparr>"
  let ?p2 = "\<lparr>returncode = 2, stdout = Some ''no lockfile''\<rparr>"
  let ?p3 = "\<lparr>returncode = 2, stdout = None\<rparr>"
  let ?p4 = "\<lparr>returncode = 2, stdout = Some ''UNFIXABLE-VULNS: 1234''\<rparr>"
  let ?E2 = "failing_acquisition\<lparr>osv_scanner := (\<lambda>cmd w. (?p2, w))\<rparr>"
  let ?E3 = "failing_acquisition\<lparr>osv_scanner := (\<lambda>cmd w. (?p3, w))\<rparr>"
  let ?E4 = "failing_acquisition\<lparr>int_max_str_digits := 3, osv_scanner := (\<lambda>cmd w. (?p4, w))\<rparr>"
  have g1: "git_checkout failing_acquisition () = (0, ())"
    and g2: "git_checkout ?E2 () = (0, ())"
    and g3: "git_checkout ?E3 () = (0, ())"
    and g4: "git_checkout ?E4 () = (0, ())"
    by (simp_all add: failing_acquisition_def)
  have c1: "osv_scanner failing_acquisition (fix_cmd failing_acquisition 2 [''pkgB''] ?st) ()
              = (?p1, ())"
    by (simp add: failing_acquisition_def)
  have c2: "osv_scanner ?E2 (fix_cmd ?E2 2 [''pkgB''] ?st) () = (?p2, ())" by simp
  have c3: "osv_scanner ?E3 (fix_cmd ?E3 2 [''pkgB''] ?st) () = (?p3, ())" by simp
  have c4: "osv_scanner ?E4 (fix_cmd ?E4 2 [''pkgB''] ?st) () = (?p4, ())" by simp
  have m: "int_max_str_digits failing_acquisition = 4300"
    by (simp add: failing_acquisition_def)
  have parse1: "parse_output 4300 marker_output = Inr ([''pkgA''], Some 3, None)"
    by (simp add: marker_output_def newline_def parse_output_def search_count_def
          int_str_def startswith_def upgraded_literal_def group1_def not_newline_def
          is_digit_def is_space_def int_of_digits_def)
  have none: "\<not> occurs_in upgraded_literal ''no lockfile''
              \<and> \<not> occurs_in ''REMAINING-VULNS:'' ''no lockfile''
              \<and> \<not> occurs_in ''UNFIXABLE-VULNS:'' ''no lockfile''"
    by (simp add: startswith_def upgraded_literal_def)
  have parse4: "parse_output 3 ''UNFIXABLE-VULNS: 1234'' = Inl ValueError"
    by (simp add: parse_output_def search_count_def int_str_def startswith_def
          upgraded_literal_def is_digit_def is_space_def)
  have r1: "returncode ?p1 \<noteq> 0" and r2: "returncode ?p2 \<noteq> 0"
    and r3: "returncode ?p3 \<noteq> 0" and r4: "returncode ?p4 \<noteq> 0"
    by simp_all
  note t1 = run_fix_failed_call [where out = marker_output, OF g1 c1 r1]
  note t2 = run_fix_failed_call [where out = "''no lockfile''", OF g2 c2 r2]
  note t3 = run_fix_failed_call [OF g3 c3 r3]
  note t4 = run_fix_failed_call [where out = "''UNFIXABLE-VULNS: 1234''", OF g4 c4 r4]
  have 1: "run_fix failing_acquisition 2 [''pkgB''] ?st () = (Inr ([''pkgA''], Some 3, None), ())"
    using t1 m parse1 by simp
  have 0: "run_fix (failing_acquisition\<lparr>osv_scanner :=
          (\<lambda>cmd w. (\<lparr>returncode = 0, stdout = Some marker_output\<rparr>, ()))\<rparr>) 2 [''pkgB''] ?st ()
        = (Inr ([''pkgA''], Some 3, None), ())"
    using t1 1 by simp
  have s2: "stdout ?p2 = Some ''no lockfile''" by simp
  have 2: "run_fix ?E2 2 [''pkgB''] ?st () = (Inr ([], None, None), ())"
    using t2 [THEN conjunct2, THEN conjunct2, THEN mp, OF s2, THEN conjunct2,
              THEN conjunct1, THEN mp, OF none] .
  have s3: "stdout ?p3 = None" by simp
  have 3: "run_fix ?E3 2 [''pkgB''] ?st () = (Inl UnicodeDecodeError, ())"
    using t3 [THEN conjunct2, THEN conjunct1, THEN mp, OF s3] .
  have s4: "stdout ?p4 = Some ''UNFIXABLE-VULNS: 1234''" by simp
  have 4: "run_fix ?E4 2 [''pkgB''] ?st () = (Inl ValueError, ())"
    using t4 [THEN conjunct2, THEN conjunct2, THEN mp, OF s4, THEN conjunct1]
    by (simp add: parse4)
  show ?thesis by (intro conjI 1 0 2 3 4)
qed

section \<open>The rounds of the convergence loop\<close>

text \<open>
  The loop of lines 120 to 122 appends the candidates that are not applied, in order.
\<close>

lemma blocklist_upgrades_filter:
  "blocklist_upgrades applied blocklist cs = blocklist @ filter (\<lambda>u. u \<notin> set applied) cs"
  by (induction cs arbitrary: blocklist) auto

text \<open>
  One round, with the validation outcome folded into \<open>validation_failed\<close>: the five ways
  a round that acquired candidates can go on.
\<close>

lemma loop_body_unfold:
  "loop_body E st s w =
     (case run_fix E (n_patches s) (blocklist_entries s) st w of
        (Inl e, w1) \<Rightarrow> (Raise e, w1)
      | (Inr (c, r, u), w1) \<Rightarrow>
          if c = applied_changes s then (Break (s\<lparr>remaining_vulns := r\<rparr>), w1)
          else if validation_failed E w1 then
            if n_patches s = 0 then
              (Continue (s\<lparr>remaining_vulns := r, total_unfixable := u, n_patches := 1\<rparr>),
               after_validation E w1)
            else
              (Continue (s\<lparr>remaining_vulns := r,
                 blocklist_entries :=
                   blocklist_entries s @ filter (\<lambda>p. p \<notin> set (applied_changes s)) c\<rparr>),
               after_validation E w1)
          else if n_patches s = 0 then
            (Break (s\<lparr>remaining_vulns := r, applied_changes := c\<rparr>), after_validation E w1)
          else
            (Continue (s\<lparr>remaining_vulns := r, applied_changes := c,
               n_patches := n_patches s + 1\<rparr>), after_validation E w1))"
  by (auto simp: loop_body_def validation_failed_def after_validation_def
        blocklist_upgrades_filter Let_def split: prod.splits sum.splits)

lemma loop_body_Break:
  assumes "loop_body E st s w = (Break s', w')"
  shows "\<exists>c r u w1. run_fix E (n_patches s) (blocklist_entries s) st w = (Inr (c, r, u), w1)
           \<and> (c = applied_changes s \<and> s' = s\<lparr>remaining_vulns := r\<rparr> \<and> w' = w1
              \<or> c \<noteq> applied_changes s \<and> n_patches s = 0 \<and> \<not> validation_failed E w1
                \<and> s' = s\<lparr>remaining_vulns := r, applied_changes := c\<rparr>
                \<and> w' = after_validation E w1)"
  using assms unfolding loop_body_unfold
  by (auto split: prod.splits sum.splits if_splits)

lemma loop_body_Continue:
  assumes "loop_body E st s w = (Continue s', w')"
  shows "\<exists>c r u w1. run_fix E (n_patches s) (blocklist_entries s) st w = (Inr (c, r, u), w1)
           \<and> c \<noteq> applied_changes s \<and> w' = after_validation E w1
           \<and> (validation_failed E w1 \<and> n_patches s = 0
                \<and> s' = s\<lparr>remaining_vulns := r, total_unfixable := u, n_patches := 1\<rparr>
              \<or> validation_failed E w1 \<and> 1 \<le> n_patches s
                \<and> s' = s\<lparr>remaining_vulns := r, blocklist_entries :=
                     blocklist_entries s @ filter (\<lambda>p. p \<notin> set (applied_changes s)) c\<rparr>
              \<or> \<not> validation_failed E w1 \<and> 1 \<le> n_patches s
                \<and> s' = s\<lparr>remaining_vulns := r, applied_changes := c,
                     n_patches := n_patches s + 1\<rparr>)"
  using assms unfolding loop_body_unfold
  by (auto split: prod.splits sum.splits if_splits)

lemma loop_body_applied:
  assumes "loop_body E st s w = (Continue s', w') \<or> loop_body E st s w = (Break s', w')"
  shows "applied_changes s' = applied_changes s \<or> validated E st s w (applied_changes s')"
  using assms loop_body_Continue [of E st s w s' w'] loop_body_Break [of E st s w s' w']
  by (auto simp: validated_def)

text \<open>
  Rounds compose, and a state after \<open>k + 1\<close> rounds is one round after a state after \<open>k\<close>.
\<close>

lemma after_rounds_add:
  "after_rounds E st (i + k) s w =
     (case after_rounds E st i s w of
        None \<Rightarrow> None
      | Some (s', w') \<Rightarrow> after_rounds E st k s' w')"
  by (induction i arbitrary: s w) (auto split: prod.splits control.splits)

lemma after_rounds_Suc_last:
  "after_rounds E st (Suc k) s w =
     (case after_rounds E st k s w of
        None \<Rightarrow> None
      | Some (s', w') \<Rightarrow>
          (case loop_body E st s' w' of
             (Continue s'', w'') \<Rightarrow> Some (s'', w'')
           | (Break s'', w'') \<Rightarrow> None
           | (Raise e, w'') \<Rightarrow> None))"
  using after_rounds_add [of E st k "Suc 0" s w]
  by (simp split: option.splits prod.splits control.splits)

lemma after_rounds_Suc_SomeD:
  assumes "after_rounds E st (Suc k) s w = Some (s', w')"
  shows "\<exists>s1 w1. after_rounds E st k s w = Some (s1, w1)
           \<and> loop_body E st s1 w1 = (Continue s', w')"
  using assms unfolding after_rounds_Suc_last
  by (auto split: option.splits prod.splits control.splits)

lemma after_rounds_le:
  assumes "i \<le> j" and "after_rounds E st i s w = Some (si, wi)"
    and "after_rounds E st j s w = Some (sj, wj)"
  shows "after_rounds E st (j - i) si wi = Some (sj, wj)"
  using assms after_rounds_add [of E st i "j - i" s w] by simp

text \<open>
  Once the budget is at least 1 it stays so, and \<^verbatim>\<open>total_unfixable\<close> is not assigned again.
\<close>

lemma after_rounds_incremental:
  assumes "after_rounds E st k s w = Some (s', w')" and "1 \<le> n_patches s"
  shows "1 \<le> n_patches s' \<and> total_unfixable s' = total_unfixable s"
  using assms
proof (induction k arbitrary: s' w')
  case 0
  then show ?case by simp
next
  case (Suc k)
  from after_rounds_Suc_SomeD [OF Suc.prems(1)] obtain s1 w1 where
    k: "after_rounds E st k s w = Some (s1, w1)" and
    lb: "loop_body E st s1 w1 = (Continue s', w')" by blast
  from Suc.IH [OF k Suc.prems(2)] have "1 \<le> n_patches s1" "total_unfixable s1 = total_unfixable s"
    by simp_all
  with loop_body_Continue [OF lb] show ?case by auto
qed

lemma after_rounds_positive:
  assumes "after_rounds E st (Suc k) s w = Some (s', w')"
  shows "1 \<le> n_patches s'"
proof -
  from after_rounds_Suc_SomeD [OF assms] obtain s1 w1 where
    "loop_body E st s1 w1 = (Continue s', w')" by blast
  from loop_body_Continue [OF this] show ?thesis by auto
qed

text \<open>
  Rounds only append to the blocklist.
\<close>

lemma after_rounds_blocklist:
  assumes "after_rounds E st k s w = Some (s', w')"
  shows "\<exists>ys. blocklist_entries s' = blocklist_entries s @ ys"
  using assms
proof (induction k arbitrary: s' w')
  case 0
  then show ?case by simp
next
  case (Suc k)
  from after_rounds_Suc_SomeD [OF Suc.prems] obtain s1 w1 where
    k: "after_rounds E st k s w = Some (s1, w1)" and
    lb: "loop_body E st s1 w1 = (Continue s', w')" by blast
  from Suc.IH [OF k] obtain ys where "blocklist_entries s1 = blocklist_entries s @ ys" by blast
  with loop_body_Continue [OF lb] show ?case by auto
qed

text \<open>
  Whatever \<^verbatim>\<open>applied_changes\<close> holds after some rounds, if it is not what the rounds started
  from, was validated in one of them.
\<close>

lemma after_rounds_applied:
  assumes "after_rounds E st k s w = Some (s', w')"
  shows "applied_changes s' = applied_changes s
         \<or> (\<exists>j<k. \<exists>s0 w0. after_rounds E st j s w = Some (s0, w0)
               \<and> validated E st s0 w0 (applied_changes s'))"
  using assms
proof (induction k arbitrary: s' w')
  case 0
  then show ?case by simp
next
  case (Suc k)
  from after_rounds_Suc_SomeD [OF Suc.prems] obtain s1 w1 where
    k: "after_rounds E st k s w = Some (s1, w1)" and
    lb: "loop_body E st s1 w1 = (Continue s', w')" by blast
  from loop_body_applied [of E st s1 w1 s' w'] lb
  consider "applied_changes s' = applied_changes s1"
    | "validated E st s1 w1 (applied_changes s')" by blast
  then show ?case
  proof cases
    case 1
    with Suc.IH [OF k] show ?thesis by (auto intro: less_SucI)
  next
    case 2
    with k show ?thesis by blast
  qed
qed

text \<open>
  A result of the loop comes out of a last round.
\<close>

lemma exits_after_Continue:
  assumes "loop_body E st s w = (Continue s1, w1)" and "exits_after E st s1 w1 y"
  shows "exits_after E st s w y"
proof -
  from assms(2) obtain k s0 w0 where
    k: "after_rounds E st k s1 w1 = Some (s0, w0)" and
    e: "(\<exists>s'. loop_body E st s0 w0 = (Break s', snd y) \<and> fst y = Inr (returned s'))
         \<or> (\<exists>e. loop_body E st s0 w0 = (Raise e, snd y) \<and> fst y = Inl e)"
    unfolding exits_after_def by blast
  from k assms(1) have "after_rounds E st (Suc k) s w = Some (s0, w0)" by simp
  with e show ?thesis unfolding exits_after_def by blast
qed

lemma exits_after_now:
  assumes "loop_body E st s w = (Break s', w') \<and> r = Inr (returned s')
           \<or> loop_body E st s w = (Raise e, w') \<and> r = Inl e"
  shows "exits_after E st s w (r, w')"
proof -
  have "after_rounds E st 0 s w = Some (s, w)" by simp
  with assms show ?thesis unfolding exits_after_def by fastforce
qed

lemma while_loop_last_round:
  assumes "while_loop E st s w = Some y"
  shows "exits_after E st s w y"
proof (rule while_loop.raw_induct [where P = exits_after, OF _ assms])
  fix f :: "'w env \<Rightarrow> string list \<Rightarrow> run_state \<Rightarrow> 'w \<Rightarrow> ((error + loop_result) \<times> 'w) option"
    and E st s w y
  assume IH: "\<And>E st s w y. f E st s w = Some y \<Longrightarrow> exits_after E st s w y"
    and body: "(case loop_body E st s w of
                  (Continue s', w') \<Rightarrow> f E st s' w'
                | (Break s', w') \<Rightarrow> Some (Inr (returned s'), w')
                | (Raise e, w') \<Rightarrow> Some (Inl e, w')) = Some y"
  obtain ctl w1 where lb: "loop_body E st s w = (ctl, w1)" by (cases "loop_body E st s w")
  show "exits_after E st s w y"
  proof (cases ctl)
    case (Continue s1)
    with body lb have "f E st s1 w1 = Some y" by simp
    then have "exits_after E st s1 w1 y" by (rule IH)
    with lb Continue show ?thesis by (auto intro: exits_after_Continue)
  next
    case (Break s1)
    with body lb have "y = (Inr (returned s1), w1)" by simp
    with lb Break show ?thesis using exits_after_now [of E st s w s1 w1] by simp
  next
    case (Raise e)
    with body lb have "y = (Inl e, w1)" by simp
    with lb Raise show ?thesis using exits_after_now [of E st s w _ w1 _ e] by simp
  qed
qed

lemma run_loop_last_round:
  assumes "run_loop E st w = Some (Inr res, w')"
  shows "\<exists>k s0 w0 s'. after_rounds E st k initial_state w = Some (s0, w0)
           \<and> loop_body E st s0 w0 = (Break s', w') \<and> res = returned s'"
  using while_loop_last_round [of E st initial_state w "(Inr res, w')"] assms
  unfolding run_loop_def exits_after_def by auto

subsection \<open>How the loop ends\<close>

text \<open>
  C2, as stated, fails: in scenario A the loop ends in its first round although the
  candidates acquired in that round differ from \<^verbatim>\<open>applied_changes\<close> at the fixed-point
  check; the round ends the loop at line 127, after validation has passed with
  \<^verbatim>\<open>n_patches == 0\<close>.
\<close>

theorem run_loop_exit_counterexample:
  "run_loop scenario_A [''--strategy=in-place''] ()
     = Some (Inr ([''pkgA''], Some 2, None, []), ())
   \<and> loop_body scenario_A [''--strategy=in-place''] initial_state ()
     = (Break (initial_state\<lparr>remaining_vulns := Some 2, applied_changes := [''pkgA'']\<rparr>), ())
   \<and> run_fix scenario_A (n_patches initial_state) (blocklist_entries initial_state)
        [''--strategy=in-place''] ()
     = (Inr ([''pkgA''], Some 2, Some 3), ())
   \<and> [''pkgA''] \<noteq> applied_changes initial_state"
  by code_simp

text \<open>
  C2 (amended): a run of the loop that returns ends in one of two ways: at the
  fixed-point check of some round, whose candidates equal \<^verbatim>\<open>applied_changes\<close>; or in the
  first round, with \<^verbatim>\<open>n_patches == 0\<close>, when its candidates differ from
  \<^verbatim>\<open>applied_changes\<close> and validation passes. In both cases the returned applied list is
  the candidate list of that last acquisition call.
\<close>

theorem run_loop_exit_conditions:
  assumes "run_loop E st w = Some (Inr res, w')"
  shows "\<exists>k s0 w0 c r u w1.
           after_rounds E st k initial_state w = Some (s0, w0)
           \<and> run_fix E (n_patches s0) (blocklist_entries s0) st w0 = (Inr (c, r, u), w1)
           \<and> fst res = c
           \<and> (c = applied_changes s0 \<and> w' = w1
              \<or> c \<noteq> applied_changes s0 \<and> k = 0 \<and> n_patches s0 = 0
                \<and> \<not> validation_failed E w1 \<and> w' = after_validation E w1)"
proof -
  from run_loop_last_round [OF assms] obtain k s0 w0 s' where
    k: "after_rounds E st k initial_state w = Some (s0, w0)" and
    lb: "loop_body E st s0 w0 = (Break s', w')" and res: "res = returned s'" by blast
  from loop_body_Break [OF lb] obtain c r u w1 where
    rf: "run_fix E (n_patches s0) (blocklist_entries s0) st w0 = (Inr (c, r, u), w1)" and
    d: "c = applied_changes s0 \<and> s' = s0\<lparr>remaining_vulns := r\<rparr> \<and> w' = w1
        \<or> c \<noteq> applied_changes s0 \<and> n_patches s0 = 0 \<and> \<not> validation_failed E w1
          \<and> s' = s0\<lparr>remaining_vulns := r, applied_changes := c\<rparr>
          \<and> w' = after_validation E w1" by blast
  have k0: "n_patches s0 = 0 \<Longrightarrow> k = 0"
  proof (cases k)
    case 0
    then show ?thesis by simp
  next
    case (Suc k')
    with k after_rounds_positive [of E st k' initial_state w s0 w0] show "n_patches s0 = 0 \<Longrightarrow> k = 0"
      by simp
  qed
  from d res have "fst res = c" by (auto simp: returned_def)
  with k rf d k0 show ?thesis by blast
qed

text \<open>
  The amended C2 at the four-call scenario, which ends at the fixed-point check.
\<close>

theorem run_loop_exit_conditions_witness:
  "run_loop scenario [''--strategy=in-place''] 0
     = Some (Inr ([''pkgA''], None, Some 1, [''pkgB'']), 4)
   \<and> (\<exists>k s0 w0 c r u w1.
         after_rounds scenario [''--strategy=in-place''] k initial_state 0 = Some (s0, w0)
         \<and> run_fix scenario (n_patches s0) (blocklist_entries s0) [''--strategy=in-place''] w0
             = (Inr (c, r, u), w1)
         \<and> [''pkgA''] = c
         \<and> (c = applied_changes s0 \<and> 4 = w1
            \<or> c \<noteq> applied_changes s0 \<and> k = 0 \<and> n_patches s0 = 0
              \<and> \<not> validation_failed scenario w1 \<and> 4 = after_validation scenario w1))"
proof -
  have h: "run_loop scenario [''--strategy=in-place''] 0
             = Some (Inr ([''pkgA''], None, Some 1, [''pkgB'']), 4)"
    by code_simp
  from run_loop_exit_conditions [OF h] h show ?thesis by simp
qed

subsection \<open>The blocklist\<close>

text \<open>
  C4: when validation fails in a round with \<^verbatim>\<open>n_patches >= 1\<close>, the round goes on with the
  blocklist extended by exactly the candidates that are not in \<^verbatim>\<open>applied_changes\<close> (in the
  candidates' order) and with \<^verbatim>\<open>n_patches\<close> unchanged; and for rounds \<open>i \<le> j\<close> of one run
  the blocklist at round \<open>i\<close> is a prefix, hence a subset, of the blocklist at round \<open>j\<close>.
\<close>

theorem blocklist_grows_on_failure:
  "(1 \<le> n_patches s
      \<and> run_fix E (n_patches s) (blocklist_entries s) st w = (Inr (c, r, u), w1)
      \<and> c \<noteq> applied_changes s \<and> validation_failed E w1
    \<longrightarrow> (\<exists>s'. loop_body E st s w = (Continue s', after_validation E w1)
           \<and> blocklist_entries s'
               = blocklist_entries s @ filter (\<lambda>p. p \<notin> set (applied_changes s)) c
           \<and> n_patches s' = n_patches s))
   \<and> (i \<le> j \<and> after_rounds E st i s0 w0 = Some (si, wi)
      \<and> after_rounds E st j s0 w0 = Some (sj, wj)
    \<longrightarrow> (\<exists>ys. blocklist_entries sj = blocklist_entries si @ ys)
        \<and> set (blocklist_entries si) \<subseteq> set (blocklist_entries sj))"
proof (intro conjI impI)
  assume a: "1 \<le> n_patches s
      \<and> run_fix E (n_patches s) (blocklist_entries s) st w = (Inr (c, r, u), w1)
      \<and> c \<noteq> applied_changes s \<and> validation_failed E w1"
  then have "loop_body E st s w
      = (Continue (s\<lparr>remaining_vulns := r, blocklist_entries :=
           blocklist_entries s @ filter (\<lambda>p. p \<notin> set (applied_changes s)) c\<rparr>),
         after_validation E w1)"
    by (simp add: loop_body_unfold)
  then show "\<exists>s'. loop_body E st s w = (Continue s', after_validation E w1)
           \<and> blocklist_entries s'
               = blocklist_entries s @ filter (\<lambda>p. p \<notin> set (applied_changes s)) c
           \<and> n_patches s' = n_patches s"
    by simp
next
  assume b: "i \<le> j \<and> after_rounds E st i s0 w0 = Some (si, wi)
      \<and> after_rounds E st j s0 w0 = Some (sj, wj)"
  then have "after_rounds E st (j - i) si wi = Some (sj, wj)"
    using after_rounds_le [of i j E st s0 w0 si wi sj wj] by simp
  from after_rounds_blocklist [OF this]
  show ex: "\<exists>ys. blocklist_entries sj = blocklist_entries si @ ys" .
  then show "set (blocklist_entries si) \<subseteq> set (blocklist_entries sj)" by auto
qed

text \<open>
  C4 at the third round of the four-call scenario, and between its rounds 1 and 3.
\<close>

theorem blocklist_grows_on_failure_witness:
  "(\<exists>s'. loop_body scenario [''--strategy=in-place'']
            \<lparr>applied_changes = [''pkgA''], blocklist_entries = [], n_patches = 2,
             remaining_vulns = Some 4, total_unfixable = Some 1\<rparr> 2
          = (Continue s', 3)
        \<and> blocklist_entries s' = [''pkgB''] \<and> n_patches s' = 2)
   \<and> after_rounds scenario [''--strategy=in-place''] 1 initial_state 0
       = Some (\<lparr>applied_changes = [], blocklist_entries = [], n_patches = 1,
                remaining_vulns = Some 5, total_unfixable = Some 1\<rparr>, 1)
   \<and> after_rounds scenario [''--strategy=in-place''] 3 initial_state 0
       = Some (\<lparr>applied_changes = [''pkgA''], blocklist_entries = [''pkgB''], n_patches = 2,
                remaining_vulns = Some 3, total_unfixable = Some 1\<rparr>, 3)
   \<and> (\<exists>ys. [''pkgB''] = [] @ ys)"
proof -
  let ?st = "[''--strategy=in-place'']"
  let ?s2 = "\<lparr>applied_changes = [''pkgA''], blocklist_entries = [], n_patches = 2,
              remaining_vulns = Some 4, total_unfixable = Some 1\<rparr>"
  let ?s1 = "\<lparr>applied_changes = [], blocklist_entries = [], n_patches = 1,
              remaining_vulns = Some 5, total_unfixable = Some 1\<rparr>"
  let ?s3 = "\<lparr>applied_changes = [''pkgA''], blocklist_entries = [''pkgB''], n_patches = 2,
              remaining_vulns = Some 3, total_unfixable = Some 1\<rparr>"
  have a: "1 \<le> n_patches ?s2
      \<and> run_fix scenario (n_patches ?s2) (blocklist_entries ?s2) ?st 2
          = (Inr ([''pkgA'', ''pkgB''], Some 3, Some 7), 3)
      \<and> [''pkgA'', ''pkgB''] \<noteq> applied_changes ?s2 \<and> validation_failed scenario 3"
    by code_simp
  have av: "after_validation scenario 3 = 3" by code_simp
  have b1: "after_rounds scenario ?st 1 initial_state 0 = Some (?s1, 1)" by code_simp
  have b3: "after_rounds scenario ?st 3 initial_state 0 = Some (?s3, 3)" by code_simp
  have b: "(1::nat) \<le> 3 \<and> after_rounds scenario ?st 1 initial_state 0 = Some (?s1, 1)
      \<and> after_rounds scenario ?st 3 initial_state 0 = Some (?s3, 3)"
    using b1 b3 by simp
  note t = blocklist_grows_on_failure
    [where s = ?s2 and E = scenario and st = ?st and w = 2 and c = "[''pkgA'', ''pkgB'']"
       and r = "Some 3" and u = "Some 7" and ?w1.0 = 3 and i = 1 and j = 3
       and ?s0.0 = initial_state and ?w0.0 = 0 and si = ?s1 and wi = 1 and sj = ?s3 and wj = 3]
  from t a b av b1 b3 show ?thesis by simp
qed

subsection \<open>The first, unconstrained attempt\<close>

text \<open>
  C5: when validation fails in a round with \<^verbatim>\<open>n_patches == 0\<close>, the round goes on with the
  blocklist as it was, \<^verbatim>\<open>total_unfixable\<close> set to the unfixable count of that attempt and
  \<^verbatim>\<open>n_patches\<close> set to 1; and the unfixable value a run returns is the count of its first
  attempt when that attempt proposed candidates and failed validation, and is unset
  otherwise (the loop then ended in its first round).
\<close>

theorem probe_failure_records_unfixable:
  "(n_patches s = 0
      \<and> run_fix E 0 (blocklist_entries s) st w = (Inr (c, r, u), w1)
      \<and> c \<noteq> applied_changes s \<and> validation_failed E w1
    \<longrightarrow> loop_body E st s w
          = (Continue (s\<lparr>remaining_vulns := r, total_unfixable := u, n_patches := 1\<rparr>),
             after_validation E w1))
   \<and> (run_loop E st w = Some (Inr (a, rem, unf, bl), w')
      \<and> run_fix E 0 [] st w = (Inr (c, r, u), w1)
    \<longrightarrow> unf = (if c \<noteq> [] \<and> validation_failed E w1 then u else None))"
proof (intro conjI impI)
  assume "n_patches s = 0
      \<and> run_fix E 0 (blocklist_entries s) st w = (Inr (c, r, u), w1)
      \<and> c \<noteq> applied_changes s \<and> validation_failed E w1"
  then show "loop_body E st s w
          = (Continue (s\<lparr>remaining_vulns := r, total_unfixable := u, n_patches := 1\<rparr>),
             after_validation E w1)"
    by (simp add: loop_body_unfold)
next
  assume a: "run_loop E st w = Some (Inr (a, rem, unf, bl), w')
      \<and> run_fix E 0 [] st w = (Inr (c, r, u), w1)"
  then have rf: "run_fix E (n_patches initial_state) (blocklist_entries initial_state) st w
      = (Inr (c, r, u), w1)"
    by (simp add: initial_state_def)
  from a run_loop_last_round [of E st w "(a, rem, unf, bl)" w'] obtain k s0 w0 s' where
    k: "after_rounds E st k initial_state w = Some (s0, w0)" and
    lb: "loop_body E st s0 w0 = (Break s', w')" and
    res: "(a, rem, unf, bl) = returned s'" by blast
  from res have unf: "unf = total_unfixable s'" by (simp add: returned_def)
  from loop_body_Break [OF lb] have keep: "total_unfixable s' = total_unfixable s0" by auto
  show "unf = (if c \<noteq> [] \<and> validation_failed E w1 then u else None)"
  proof (cases k)
    case 0
    with k have s0: "s0 = initial_state" "w0 = w" by simp_all
    with lb rf have "\<not> (c \<noteq> [] \<and> validation_failed E w1)"
      by (auto simp: loop_body_unfold initial_state_def split: if_splits)
    moreover from s0 have "total_unfixable s0 = None" by (simp add: initial_state_def)
    ultimately show ?thesis using unf keep by auto
  next
    case (Suc k')
    with k obtain s1 w2 where
      first: "loop_body E st initial_state w = (Continue s1, w2)" and
      rest: "after_rounds E st k' s1 w2 = Some (s0, w0)"
      by (auto split: prod.splits control.splits)
    from first rf have c: "c \<noteq> [] \<and> validation_failed E w1"
      and s1: "n_patches s1 = 1" "total_unfixable s1 = u"
      by (auto simp: loop_body_unfold initial_state_def split: if_splits)
    from after_rounds_incremental [OF rest] s1 have "total_unfixable s0 = u" by simp
    with c unf keep show ?thesis by simp
  qed
qed

text \<open>
  C5 at the four-call scenario (the first attempt fails and reports 1) and at scenario A
  (the first attempt passes: the count 3 it reported is not returned).
\<close>

theorem probe_failure_records_unfixable_witness:
  "loop_body scenario [''--strategy=in-place''] initial_state 0
     = (Continue \<lparr>applied_changes = [], blocklist_entries = [], n_patches = 1,
                  remaining_vulns = Some 5, total_unfixable = Some 1\<rparr>, 1)
   \<and> run_loop scenario [''--strategy=in-place''] 0
       = Some (Inr ([''pkgA''], None, Some 1, [''pkgB'']), 4)
   \<and> (if [''pkgA'', ''pkgB''] \<noteq> [] \<and> validation_failed scenario 1 then Some 1 else None)
       = Some (1::nat)
   \<and> run_loop scenario_A [''--strategy=in-place''] ()
       = Some (Inr ([''pkgA''], Some 2, None, []), ())
   \<and> (if [''pkgA''] \<noteq> [] \<and> validation_failed scenario_A () then Some 3 else None)
       = (None :: nat option)"
proof -
  let ?st = "[''--strategy=in-place'']"
  have a: "n_patches initial_state = 0
      \<and> run_fix scenario 0 (blocklist_entries initial_state) ?st 0
          = (Inr ([''pkgA'', ''pkgB''], Some 5, Some 1), 1)
      \<and> [''pkgA'', ''pkgB''] \<noteq> applied_changes initial_state
      \<and> validation_failed scenario 1"
    by code_simp
  have av: "after_validation scenario 1 = 1" by code_simp
  have b: "run_loop scenario ?st 0 = Some (Inr ([''pkgA''], None, Some 1, [''pkgB'']), 4)
      \<and> run_fix scenario 0 [] ?st 0 = (Inr ([''pkgA'', ''pkgB''], Some 5, Some 1), 1)"
    by code_simp
  have c: "run_loop scenario_A ?st () = Some (Inr ([''pkgA''], Some 2, None, []), ())
      \<and> run_fix scenario_A 0 [] ?st () = (Inr ([''pkgA''], Some 2, Some 3), ())"
    by code_simp
  note t1 = probe_failure_records_unfixable
    [where s = initial_state and E = scenario and st = ?st and w = 0
       and c = "[''pkgA'', ''pkgB'']" and r = "Some 5" and u = "Some 1" and ?w1.0 = 1
       and a = "[''pkgA'']" and rem = None and unf = "Some 1" and bl = "[''pkgB'']" and w' = 4]
  note t2 = probe_failure_records_unfixable
    [where s = initial_state and E = scenario_A and st = ?st and w = "()"
       and c = "[''pkgA'']" and r = "Some 2" and u = "Some 3" and ?w1.0 = "()"
       and a = "[''pkgA'']" and rem = "Some 2" and unf = None and bl = "[]" and w' = "()"]
  have 1: "loop_body scenario ?st initial_state 0
     = (Continue \<lparr>applied_changes = [], blocklist_entries = [], n_patches = 1,
                  remaining_vulns = Some 5, total_unfixable = Some 1\<rparr>, 1)"
    using t1 [THEN conjunct1, THEN mp, OF a] av by (simp add: initial_state_def)
  have 2: "(if [''pkgA'', ''pkgB''] \<noteq> [] \<and> validation_failed scenario 1 then Some 1 else None)
       = Some (1::nat)"
    by (rule t1 [THEN conjunct2, THEN mp, OF b, symmetric])
  have 3: "(if [''pkgA''] \<noteq> [] \<and> validation_failed scenario_A () then Some 3 else None)
       = (None :: nat option)"
    by (rule t2 [THEN conjunct2, THEN mp, OF c, symmetric])
  from b have b': "run_loop scenario ?st 0 = Some (Inr ([''pkgA''], None, Some 1, [''pkgB'']), 4)"
    by (rule conjunct1)
  from c have c': "run_loop scenario_A ?st () = Some (Inr ([''pkgA''], Some 2, None, []), ())"
    by (rule conjunct1)
  show ?thesis by (intro conjI 1 2 3 b' c')
qed

subsection \<open>What is accepted has been validated\<close>

text \<open>
  C7: a round leaves \<^verbatim>\<open>applied_changes\<close> as it was or sets it to candidates that it
  validated; so after any number of rounds \<^verbatim>\<open>applied_changes\<close> is empty or was validated
  in an earlier round of the run, and so is the applied list a run returns.
\<close>

theorem applied_only_validated:
  "(loop_body E st s w = (Continue s', w') \<or> loop_body E st s w = (Break s', w')
    \<longrightarrow> applied_changes s' = applied_changes s \<or> validated E st s w (applied_changes s'))
   \<and> (after_rounds E st k initial_state w0 = Some (sk, wk)
    \<longrightarrow> applied_changes sk = []
        \<or> (\<exists>j<k. \<exists>sj wj. after_rounds E st j initial_state w0 = Some (sj, wj)
              \<and> validated E st sj wj (applied_changes sk)))
   \<and> (run_loop E st w0 = Some (Inr (a, rem, unf, bl), wr)
    \<longrightarrow> a = []
        \<or> (\<exists>j sj wj. after_rounds E st j initial_state w0 = Some (sj, wj)
              \<and> validated E st sj wj a))"
proof (intro conjI impI)
  assume "loop_body E st s w = (Continue s', w') \<or> loop_body E st s w = (Break s', w')"
  then show "applied_changes s' = applied_changes s \<or> validated E st s w (applied_changes s')"
    by (rule loop_body_applied)
next
  assume "after_rounds E st k initial_state w0 = Some (sk, wk)"
  from after_rounds_applied [OF this]
  show "applied_changes sk = []
        \<or> (\<exists>j<k. \<exists>sj wj. after_rounds E st j initial_state w0 = Some (sj, wj)
              \<and> validated E st sj wj (applied_changes sk))"
    by (simp add: initial_state_def)
next
  assume "run_loop E st w0 = Some (Inr (a, rem, unf, bl), wr)"
  from run_loop_last_round [OF this] obtain k s0 w1 s' where
    k: "after_rounds E st k initial_state w0 = Some (s0, w1)" and
    lb: "loop_body E st s0 w1 = (Break s', wr)" and
    res: "(a, rem, unf, bl) = returned s'" by blast
  from res have a: "a = applied_changes s'" by (simp add: returned_def)
  from loop_body_applied [of E st s0 w1 s' wr] lb
  consider "applied_changes s' = applied_changes s0" | "validated E st s0 w1 a"
    using a by blast
  then show "a = []
        \<or> (\<exists>j sj wj. after_rounds E st j initial_state w0 = Some (sj, wj)
              \<and> validated E st sj wj a)"
  proof cases
    case 1
    with after_rounds_applied [OF k] a show ?thesis
      by (auto simp: initial_state_def)
  next
    case 2
    with k show ?thesis by blast
  qed
qed

text \<open>
  C7 at the second round of the four-call scenario; the candidates of its first round
  failed validation and are not validated.
\<close>

theorem applied_only_validated_witness:
  "validated scenario [''--strategy=in-place'']
      \<lparr>applied_changes = [], blocklist_entries = [], n_patches = 1,
       remaining_vulns = Some 5, total_unfixable = Some 1\<rparr> 1 [''pkgA'']
   \<and> \<not> validated scenario [''--strategy=in-place''] initial_state 0 [''pkgA'', ''pkgB'']
   \<and> run_loop scenario [''--strategy=in-place''] 0
       = Some (Inr ([''pkgA''], None, Some 1, [''pkgB'']), 4)
   \<and> (\<exists>j sj wj. after_rounds scenario [''--strategy=in-place''] j initial_state 0 = Some (sj, wj)
         \<and> validated scenario [''--strategy=in-place''] sj wj [''pkgA''])"
proof -
  let ?st = "[''--strategy=in-place'']"
  let ?s1 = "\<lparr>applied_changes = [], blocklist_entries = [], n_patches = 1,
              remaining_vulns = Some 5, total_unfixable = Some 1\<rparr>"
  let ?s2 = "\<lparr>applied_changes = [''pkgA''], blocklist_entries = [], n_patches = 2,
              remaining_vulns = Some 4, total_unfixable = Some 1\<rparr>"
  have lb: "loop_body scenario ?st ?s1 1 = (Continue ?s2, 2)" by code_simp
  have v: "\<not> validated scenario ?st initial_state 0 [''pkgA'', ''pkgB'']" by code_simp
  have h: "run_loop scenario ?st 0 = Some (Inr ([''pkgA''], None, Some 1, [''pkgB'']), 4)"
    by code_simp
  note t = applied_only_validated
    [where E = scenario and st = ?st and s = ?s1 and w = 1 and s' = ?s2 and w' = 2
       and ?w0.0 = 0 and a = "[''pkgA'']" and rem = None and unf = "Some 1"
       and bl = "[''pkgB'']" and wr = 4]
  from t lb v h show ?thesis by simp
qed

subsection \<open>The remaining count a run returns\<close>

text \<open>
  C10: the remaining count (and the applied list) a run returns are those of the
  acquisition call of its last round, whatever earlier rounds reported; and a run that
  returns no remaining count leaves the best result as it is.
\<close>

theorem returned_remaining_is_last:
  assumes "run_loop E st w = Some (Inr (a, rem, unf, bl), w')"
  shows "(\<exists>k s0 w0 s' u w1.
            after_rounds E st k initial_state w = Some (s0, w0)
            \<and> loop_body E st s0 w0 = (Break s', w')
            \<and> run_fix E (n_patches s0) (blocklist_entries s0) st w0 = (Inr (a, rem, u), w1))
         \<and> (rem = None \<longrightarrow> update_best b st (a, rem, unf, bl) = b)"
proof
  from run_loop_last_round [OF assms] obtain k s0 w0 s' where
    k: "after_rounds E st k initial_state w = Some (s0, w0)" and
    lb: "loop_body E st s0 w0 = (Break s', w')" and
    res: "(a, rem, unf, bl) = returned s'" by blast
  from loop_body_Break [OF lb] res obtain u w1 where
    "run_fix E (n_patches s0) (blocklist_entries s0) st w0 = (Inr (a, rem, u), w1)"
    by (auto simp: returned_def)
  with k lb show "\<exists>k s0 w0 s' u w1.
            after_rounds E st k initial_state w = Some (s0, w0)
            \<and> loop_body E st s0 w0 = (Break s', w')
            \<and> run_fix E (n_patches s0) (blocklist_entries s0) st w0 = (Inr (a, rem, u), w1)"
    by blast
next
  show "rem = None \<longrightarrow> update_best b st (a, rem, unf, bl) = b" by simp
qed

text \<open>
  C10 at the four-call scenario: the earlier calls report 5, 4 and 3, the last call
  reports nothing, and the run returns no count and does not become the best result.
\<close>

theorem returned_remaining_is_last_witness:
  "run_loop scenario [''--strategy=in-place''] 0
     = Some (Inr ([''pkgA''], None, Some 1, [''pkgB'']), 4)
   \<and> after_rounds scenario [''--strategy=in-place''] 3 initial_state 0
       = Some (\<lparr>applied_changes = [''pkgA''], blocklist_entries = [''pkgB''], n_patches = 2,
                remaining_vulns = Some 3, total_unfixable = Some 1\<rparr>, 3)
   \<and> run_fix scenario 2 [''pkgB''] [''--strategy=in-place''] 3 = (Inr ([''pkgA''], None, None), 4)
   \<and> update_best (initial_best 9223372036854775807) [''--strategy=in-place'']
        ([''pkgA''], None, Some 1, [''pkgB''])
       = initial_best 9223372036854775807"
proof -
  let ?st = "[''--strategy=in-place'']"
  have h: "run_loop scenario ?st 0 = Some (Inr ([''pkgA''], None, Some 1, [''pkgB'']), 4)"
    by code_simp
  have r3: "after_rounds scenario ?st 3 initial_state 0
       = Some (\<lparr>applied_changes = [''pkgA''], blocklist_entries = [''pkgB''], n_patches = 2,
                remaining_vulns = Some 3, total_unfixable = Some 1\<rparr>, 3)"
    by code_simp
  have rf: "run_fix scenario 2 [''pkgB''] ?st 3 = (Inr ([''pkgA''], None, None), 4)"
    by code_simp
  from returned_remaining_is_last [OF h, of "initial_best 9223372036854775807"] h r3 rf
  show ?thesis by simp
qed

section \<open>Termination of the convergence loop\<close>






















section \<open>The strategy selector and the final report\<close>

text \<open>One turn of the \<^verbatim>\<open>for\<close> loop of lines 150 to 163, for a run that returned.\<close>

lemma run_strategies_step:
  "run_loop E strategy w = Some (Inr res, w')
   \<Longrightarrow> run_strategies E (strategy # rest) b w
       = run_strategies E rest (update_best b strategy res) w'"
  by simp

text \<open>
  Over any number of strategies the loop ends with the best result it started with or
  with one of a strictly smaller remaining count.
\<close>

lemma run_strategies_keeps_or_improves:
  "run_strategies E strategies b w = Some (Inr b', w')
   \<Longrightarrow> b' = b \<or> best_remaining b' < best_remaining b"
proof (induction strategies arbitrary: b w)
  case Nil
  then show ?case by simp
next
  case (Cons s rest)
  show ?case
  proof (cases "run_loop E s w")
    case None
    with Cons.prems show ?thesis by simp
  next
    case (Some a)
    obtain x w1 where a: "a = (x, w1)" by (cases a)
    show ?thesis
    proof (cases x)
      case (Inl e)
      with Some a Cons.prems show ?thesis by simp
    next
      case (Inr res)
      with Some a Cons.prems
      have "run_strategies E rest (update_best b s res) w1 = Some (Inr b', w')" by simp
      from Cons.IH [OF this]
      have 1: "b' = update_best b s res
            \<or> best_remaining b' < best_remaining (update_best b s res)" .
      obtain c r u bl where res: "res = (c, r, u, bl)" by (cases res)
      have 2: "update_best b s res = b
            \<or> best_remaining (update_best b s res) < best_remaining b"
        unfolding res by simp
      from 1 2 show ?thesis by (elim disjE) simp_all
    qed
  qed
qed

lemma by_strategy_run_loop:
  "run_loop by_strategy [''--strategy=in-place''] ()
     = Some (Inr ([''pkgA''], Some 5, None, []), ())"
  "run_loop by_strategy [''--strategy=relock''] ()
     = Some (Inr ([''pkgB''], Some 3, None, []), ())"
  "run_loop by_strategy [''--min-severity=7''] ()
     = Some (Inr ([''pkgC''], Some 3, None, []), ())"
  by code_simp+

text \<open>
  C6: in the loop over the strategies, after a strategy's run has returned, the loop
  goes on to the remaining strategies with the best result replaced by that
  strategy's outcome exactly when the strategy's applied list is non-empty, its
  remaining count is known and the count is strictly below the best remaining so
  far; otherwise it goes on with the best result as it was, in particular when the
  count equals the best remaining so far. So the loop ends with the best result it had
  before the run or with one of a strictly smaller remaining count.
\<close>

theorem selector_strict_improvement:
  assumes "run_loop E strategy w = Some (Inr (changes, remaining, unfixable, blocklist), w')"
  shows "(changes \<noteq> [] \<and> remaining = Some r \<and> r < best_remaining b \<longrightarrow>
            run_strategies E (strategy # rest) b w
              = run_strategies E rest
                  \<lparr>best_strategy = Some strategy, best_changes = changes,
                   best_blocklist = blocklist, best_remaining = r,
                   best_unfixable = unfixable\<rparr> w'
            \<and> \<lparr>best_strategy = Some strategy, best_changes = changes,
               best_blocklist = blocklist, best_remaining = r,
               best_unfixable = unfixable\<rparr> \<noteq> b)
         \<and> (\<not> (changes \<noteq> [] \<and> (\<exists>r'. remaining = Some r' \<and> r' < best_remaining b)) \<longrightarrow>
            run_strategies E (strategy # rest) b w = run_strategies E rest b w')
         \<and> (remaining = Some (best_remaining b) \<longrightarrow>
            run_strategies E (strategy # rest) b w = run_strategies E rest b w')
         \<and> (\<forall>b' w''. run_strategies E (strategy # rest) b w = Some (Inr b', w'')
              \<longrightarrow> b' = b \<or> best_remaining b' < best_remaining b)"
proof -
  have ends: "\<forall>b' w''. run_strategies E (strategy # rest) b w = Some (Inr b', w'')
              \<longrightarrow> b' = b \<or> best_remaining b' < best_remaining b"
    by (intro allI impI) (rule run_strategies_keeps_or_improves)
  have step: "run_strategies E (strategy # rest) b w
      = run_strategies E rest
          (update_best b strategy (changes, remaining, unfixable, blocklist)) w'"
    using assms by (rule run_strategies_step)
  have replaced:
    "changes \<noteq> [] \<and> remaining = Some r \<and> r < best_remaining b \<longrightarrow>
            run_strategies E (strategy # rest) b w
              = run_strategies E rest
                  \<lparr>best_strategy = Some strategy, best_changes = changes,
                   best_blocklist = blocklist, best_remaining = r,
                   best_unfixable = unfixable\<rparr> w'
            \<and> \<lparr>best_strategy = Some strategy, best_changes = changes,
               best_blocklist = blocklist, best_remaining = r,
               best_unfixable = unfixable\<rparr> \<noteq> b"
    unfolding step by auto
  have kept:
    "\<not> (changes \<noteq> [] \<and> (\<exists>r'. remaining = Some r' \<and> r' < best_remaining b)) \<longrightarrow>
            run_strategies E (strategy # rest) b w = run_strategies E rest b w'"
    unfolding step by (cases remaining) auto
  have equal:
    "remaining = Some (best_remaining b) \<longrightarrow>
            run_strategies E (strategy # rest) b w = run_strategies E rest b w'"
    unfolding step by auto
  show ?thesis
    by (rule conjI [OF replaced conjI [OF kept conjI [OF equal ends]]])
qed

text \<open>
  The selection of section 8 of the specification, run through the loop: the three
  strategies leave 5, 3 and 3 vulnerabilities in this order; the second replaces the
  first, the third does not replace the second.
\<close>

theorem selector_strict_improvement_witness:
  "run_strategies by_strategy three_strategies (initial_best 9223372036854775807) ()
     = Some (Inr \<lparr>best_strategy = Some [''--strategy=relock''], best_changes = [''pkgB''],
                  best_blocklist = [], best_remaining = 3, best_unfixable = None\<rparr>, ())
   \<and> run_strategies by_strategy [[''--min-severity=7'']]
       \<lparr>best_strategy = Some [''--strategy=relock''], best_changes = [''pkgB''],
        best_blocklist = [], best_remaining = 3, best_unfixable = None\<rparr> ()
     = Some (Inr \<lparr>best_strategy = Some [''--strategy=relock''], best_changes = [''pkgB''],
                  best_blocklist = [], best_remaining = 3, best_unfixable = None\<rparr>, ())"
proof -
  let ?s1 = "[''--strategy=in-place'']"
  let ?s2 = "[''--strategy=relock'']"
  let ?s3 = "[''--min-severity=7'']"
  let ?b0 = "initial_best 9223372036854775807"
  let ?b1 = "\<lparr>best_strategy = Some ?s1, best_changes = [''pkgA''],
              best_blocklist = [], best_remaining = 5, best_unfixable = None\<rparr>"
  let ?b2 = "\<lparr>best_strategy = Some ?s2, best_changes = [''pkgB''],
              best_blocklist = [], best_remaining = 3, best_unfixable = None\<rparr>"
  have c1: "[''pkgA''] \<noteq> [] \<and> Some 5 = Some (5::nat) \<and> 5 < best_remaining ?b0"
    by (simp add: initial_best_def)
  have c2: "[''pkgB''] \<noteq> [] \<and> Some 3 = Some (3::nat) \<and> 3 < best_remaining ?b1"
    by simp
  have c3: "Some 3 = Some (best_remaining ?b2)"
    by simp
  have "run_strategies by_strategy three_strategies ?b0 ()
          = run_strategies by_strategy (?s1 # [?s2, ?s3]) ?b0 ()"
    by (simp add: three_strategies_def PATCH_STRATEGIES_def)
  also have "\<dots> = run_strategies by_strategy (?s2 # [?s3]) ?b1 ()"
    using selector_strict_improvement
            [where r = 5 and b = "?b0" and rest = "[?s2, ?s3]", OF by_strategy_run_loop(1),
             THEN conjunct1, THEN mp, OF c1, THEN conjunct1] .
  also have "\<dots> = run_strategies by_strategy (?s3 # []) ?b2 ()"
    using selector_strict_improvement
            [where r = 3 and b = "?b1" and rest = "[?s3]", OF by_strategy_run_loop(2),
             THEN conjunct1, THEN mp, OF c2, THEN conjunct1] .
  finally have a: "run_strategies by_strategy three_strategies ?b0 ()
                     = run_strategies by_strategy [?s3] ?b2 ()" .
  have b: "run_strategies by_strategy [?s3] ?b2 () = run_strategies by_strategy [] ?b2 ()"
    using selector_strict_improvement
            [where b = "?b2" and rest = "[]", OF by_strategy_run_loop(3),
             THEN conjunct2, THEN conjunct2, THEN conjunct1, THEN mp, OF c3] .
  have c: "run_strategies by_strategy [] ?b2 () = Some (Inr ?b2, ())"
    by simp
  show ?thesis
    using a b c by (simp only: simp_thms)
qed

text \<open>
  The run of the loop in the environment \<open>huge_remaining\<close>.
\<close>

lemma huge_remaining_parse:
  "parse_output 4300 huge_output = Inr ([''pkgA''], Some 9223372036854775807, None)"
  by (simp add: huge_output_def parse_output_def search_count_def int_str_def startswith_def
        upgraded_literal_def group1_def not_newline_def is_digit_def is_space_def
        int_of_digits_def newline_def)

lemma huge_remaining_run_fix:
  "run_fix huge_remaining n blocklist st ()
     = (Inr ([''pkgA''], Some 9223372036854775807, None), ())"
  unfolding run_fix_def huge_remaining_def by (simp add: check_output_def huge_remaining_parse)

lemma huge_remaining_run_loop:
  "run_loop huge_remaining st () = Some (Inr ([''pkgA''], Some 9223372036854775807, None, []), ())"
proof -
  have "\<not> validation_failed huge_remaining ()"
    by (simp add: validation_failed_def huge_remaining_def)
  then have "loop_body huge_remaining st initial_state ()
      = (Break (initial_state\<lparr>remaining_vulns := Some 9223372036854775807,
           applied_changes := [''pkgA'']\<rparr>), after_validation huge_remaining ())"
    by (simp add: loop_body_unfold huge_remaining_run_fix initial_state_def)
  then show ?thesis
    unfolding run_loop_def
    by (subst while_loop.simps) (simp add: returned_def initial_state_def)
qed

text \<open>
  C8, as stated, fails: the initial best remaining is \<^verbatim>\<open>sys.maxsize\<close>, a finite number
  (\<open>9223372036854775807\<close> on a 64-bit interpreter). A strategy that accepted an upgrade
  and reports exactly that many remaining vulnerabilities does not replace the initial
  best result, and the script reports no best strategy and no changed package.
\<close>

theorem initial_best_unbounded_counterexample:
  "run_loop huge_remaining [''--strategy=in-place''] ()
     = Some (Inr ([''pkgA''], Some 9223372036854775807, None, []), ())
   \<and> run_strategies huge_remaining [[''--strategy=in-place'']]
       (initial_best 9223372036854775807) ()
     = Some (Inr (initial_best 9223372036854775807), ())
   \<and> script huge_remaining 9223372036854775807 ()
     = Some (Inr [Blank, Completed_header, Best_strategy None, Cannot_upgrade_header,
                  Blank, Vulnerabilities_remain 9223372036854775807], ())"
  by (simp add: huge_remaining_run_loop script_def PATCH_STRATEGIES_def initial_best_def
        final_report_def)

text \<open>
  C8 (amended): the initial best remaining count is \<^verbatim>\<open>sys.maxsize\<close>. A strategy whose
  run returns a non-empty applied list and a reported remaining count below
  \<^verbatim>\<open>sys.maxsize\<close> replaces the initial, empty best result in the loop over the
  strategies; one whose reported count is \<^verbatim>\<open>sys.maxsize\<close> or more leaves the initial
  best result in place.
\<close>

theorem initial_best_replaced_below_maxsize:
  assumes "run_loop E strategy w = Some (Inr (changes, Some r, unfixable, blocklist), w')"
    and "changes \<noteq> []"
  shows "(r < maxsize \<longrightarrow>
            run_strategies E (strategy # rest) (initial_best maxsize) w
              = run_strategies E rest
                  \<lparr>best_strategy = Some strategy, best_changes = changes,
                   best_blocklist = blocklist, best_remaining = r,
                   best_unfixable = unfixable\<rparr> w'
            \<and> \<lparr>best_strategy = Some strategy, best_changes = changes,
               best_blocklist = blocklist, best_remaining = r,
               best_unfixable = unfixable\<rparr> \<noteq> initial_best maxsize)
         \<and> (maxsize \<le> r \<longrightarrow>
            run_strategies E (strategy # rest) (initial_best maxsize) w
              = run_strategies E rest (initial_best maxsize) w')"
  unfolding run_strategies_step [OF assms(1)]
  using assms(2) by (auto simp: initial_best_def)

text \<open>
  The amended C8 on a 64-bit interpreter: a strategy leaving 5 vulnerabilities
  replaces the initial best result, one reporting \<open>9223372036854775807\<close> does not.
\<close>

theorem initial_best_replaced_below_maxsize_witness:
  "run_strategies by_strategy [[''--strategy=in-place'']]
       (initial_best 9223372036854775807) ()
     = Some (Inr \<lparr>best_strategy = Some [''--strategy=in-place''], best_changes = [''pkgA''],
                  best_blocklist = [], best_remaining = 5, best_unfixable = None\<rparr>, ())
   \<and> run_strategies huge_remaining [[''--strategy=relock'']]
       (initial_best 9223372036854775807) ()
     = Some (Inr (initial_best 9223372036854775807), ())"
proof -
  let ?m = "9223372036854775807 :: nat"
  have ne: "[''pkgA''] \<noteq> []" by simp
  have lt: "5 < ?m" by simp
  have ge: "?m \<le> ?m" by simp
  have 1: "run_strategies by_strategy [[''--strategy=in-place'']] (initial_best ?m) ()
             = run_strategies by_strategy []
                 \<lparr>best_strategy = Some [''--strategy=in-place''], best_changes = [''pkgA''],
                  best_blocklist = [], best_remaining = 5, best_unfixable = None\<rparr> ()"
    using initial_best_replaced_below_maxsize
            [where maxsize = ?m and rest = "[]", OF by_strategy_run_loop(1) ne,
             THEN conjunct1, THEN mp, OF lt, THEN conjunct1] .
  have 2: "run_strategies huge_remaining [[''--strategy=relock'']] (initial_best ?m) ()
             = run_strategies huge_remaining [] (initial_best ?m) ()"
    using initial_best_replaced_below_maxsize
            [where maxsize = ?m and rest = "[]", OF huge_remaining_run_loop ne,
             THEN conjunct2, THEN mp, OF ge] .
  show ?thesis
    unfolding 1 2 by simp
qed

text \<open>
  C9, as stated, fails: a best result whose unfixable count is known to be 0 gives a
  final report without the line for that count.
\<close>

theorem final_report_unfixable_counterexample:
  "final_report
      \<lparr>best_strategy = Some [''--strategy=relock''], best_changes = [''pkgA''],
       best_blocklist = [], best_remaining = 2, best_unfixable = Some 0\<rparr>
     = [Blank, Completed_header, Best_strategy (Some [''--strategy=relock'']),
        Package ''pkgA'', Cannot_upgrade_header, Blank, Vulnerabilities_remain 2]
   \<and> Impossible_to_fix 0
       \<notin> set (final_report
           \<lparr>best_strategy = Some [''--strategy=relock''], best_changes = [''pkgA''],
            best_blocklist = [], best_remaining = 2, best_unfixable = Some 0\<rparr>)"
  by (simp add: final_report_def)

text \<open>
  C9 (amended): the final report has the line for the winning strategy's unfixable
  count exactly when that count is known and is not 0.
\<close>

theorem final_report_unfixable:
  "Impossible_to_fix u \<in> set (final_report b) \<longleftrightarrow> best_unfixable b = Some u \<and> u \<noteq> 0"
  by (auto simp: final_report_def split: option.splits if_splits)

text \<open>
  The amended C9 at a known count of 4 and at a known count of 0.
\<close>

theorem final_report_unfixable_witness:
  "Impossible_to_fix 4
       \<in> set (final_report
           \<lparr>best_strategy = Some [''--strategy=relock''], best_changes = [''pkgA''],
            best_blocklist = [''pkgB''], best_remaining = 2, best_unfixable = Some 4\<rparr>)
   \<and> Impossible_to_fix 0
       \<notin> set (final_report
           \<lparr>best_strategy = Some [''--strategy=relock''], best_changes = [''pkgA''],
            best_blocklist = [''pkgB''], best_remaining = 2, best_unfixable = Some 0\<rparr>)"
  using
    final_report_unfixable [of 4
      "\<lparr>best_strategy = Some [''--strategy=relock''], best_changes = [''pkgA''],
        best_blocklist = [''pkgB''], best_remaining = 2, best_unfixable = Some 4\<rparr>"]
    final_report_unfixable [of 0
      "\<lparr>best_strategy = Some [''--strategy=relock''], best_changes = [''pkgA''],
        best_blocklist = [''pkgB''], best_remaining = 2, best_unfixable = Some 0\<rparr>"]
  by simp

end
